theory Spec2Isabelle
  imports Complex_Main "HOL-Library.Multiset"
begin

section \<open>The X/Y/Z plot script: sweep planning, axis parsing, cells and grids\<close>

text \<open>
  The development follows \<^verbatim>\<open>scripts/xyz_grid.py\<close>. Every definition names the source
  function or statement it embeds. Calls into other modules (the renderer
  \<^verbatim>\<open>process_images\<close>, the image library, \<^verbatim>\<open>numpy\<close>) are parameters of the definitions
  that make them.
\<close>

subsection \<open>Iteration planner\<close>

text \<open>
  The three loop variables of \<^verbatim>\<open>draw_xyz_grid\<close>. The source passes the strings
  \<^verbatim>\<open>"x"\<close>, \<^verbatim>\<open>"y"\<close>, \<^verbatim>\<open>"z"\<close>; the planner below is the only producer of them.
\<close>

datatype axis = AX | AY | AZ

text \<open>
  \<^verbatim>\<open>Script.run\<close>, the block that sets \<^verbatim>\<open>first_axes_processed\<close> and
  \<^verbatim>\<open>second_axes_processed\<close> from \<^verbatim>\<open>x_opt.cost\<close>, \<^verbatim>\<open>y_opt.cost\<close>, \<^verbatim>\<open>z_opt.cost\<close>. The costs are
  the literals of the option table and are only compared, so any linear order models
  them.
\<close>

definition plan_axes :: "'c::linorder \<Rightarrow> 'c \<Rightarrow> 'c \<Rightarrow> axis \<times> axis" where
  "plan_axes x_cost y_cost z_cost =
     (if x_cost > y_cost \<and> x_cost > z_cost then
        (AX, if y_cost > z_cost then AY else AZ)
      else if y_cost > x_cost \<and> y_cost > z_cost then
        (AY, if x_cost > z_cost then AX else AZ)
      else if z_cost > x_cost \<and> z_cost > y_cost then
        (AZ, if x_cost > y_cost then AX else AY)
      else (AZ, AY))"

subsection \<open>Python values and exceptions\<close>

text \<open>
  Exceptions are values: every \<^verbatim>\<open>raise\<close> of the source, and every library call of the
  source that can raise on the inputs considered, is an \<open>Inl\<close> branch.
\<close>

datatype exn = ValueError | IndexError | TypeError | AttributeError | RuntimeError
  | KeyError | OverflowError | CsvError

text \<open>
  A float is kept as the bit pattern of its IEEE double; no floating-point arithmetic is
  modelled, the operations on floats are parameters where the source calls them.
\<close>

datatype pyfloat = Float64 nat

text \<open>
  The values an axis list or an attribute of the render request holds. \<open>VRef\<close> is a
  reference to a list or dictionary object of the store (section on the render request).
\<close>

datatype pyval = VNone | VBool bool | VInt int | VFloat pyfloat | VStr string
  | VTuple "string list" | VRef nat

subsection \<open>Strings: \<^verbatim>\<open>str.strip\<close>, \<^verbatim>\<open>int(str)\<close>, \<^verbatim>\<open>range\<close>\<close>

text \<open>
  Characters are the code points below 256. \<open>is_space\<close> is \<^verbatim>\<open>str.isspace\<close> on one
  character (also the class \<^verbatim>\<open>\s\<close> of \<^verbatim>\<open>re\<close>), \<open>is_digit\<close> the class \<^verbatim>\<open>\d\<close>.
\<close>

definition is_space :: "char \<Rightarrow> bool" where
  "is_space c = (let n = (of_char c :: nat) in
     (9 \<le> n \<and> n \<le> 13) \<or> (28 \<le> n \<and> n \<le> 32) \<or> n = 133 \<or> n = 160)"

definition is_digit :: "char \<Rightarrow> bool" where
  "is_digit c = (let n = (of_char c :: nat) in 48 \<le> n \<and> n \<le> 57)"

definition digit_val :: "char \<Rightarrow> nat" where
  "digit_val c = of_char c - 48"

definition py_strip :: "string \<Rightarrow> string" where
  "py_strip s = rev (dropWhile is_space (rev (dropWhile is_space s)))"

text \<open>The value of a string of decimal digits, most significant first.\<close>

definition digits_val :: "string \<Rightarrow> nat" where
  "digits_val ds = foldl (\<lambda>acc c. 10 * acc + digit_val c) 0 ds"

text \<open>
  \<^verbatim>\<open>int(s)\<close> for a string, base 10, as CPython 3.11 computes it: surrounding whitespace,
  an optional sign, then digits in which single underscores may separate digits. The
  whitespace \<^verbatim>\<open>int\<close> skips is narrower than that of \<^verbatim>\<open>str.strip\<close>: the characters 0x1C to
  0x1F are refused. A number of more than 4300 digits is refused
  (\<^verbatim>\<open>sys.int_max_str_digits\<close>). \<open>None\<close> is \<^verbatim>\<open>ValueError\<close>.
\<close>

definition is_int_space :: "char \<Rightarrow> bool" where
  "is_int_space c = (let n = (of_char c :: nat) in
     (9 \<le> n \<and> n \<le> 13) \<or> n = 32 \<or> n = 133 \<or> n = 160)"

definition int_strip :: "string \<Rightarrow> string" where
  "int_strip s = rev (dropWhile is_int_space (rev (dropWhile is_int_space s)))"

definition max_str_digits :: nat where
  "max_str_digits = 4300"

fun underscores_ok :: "string \<Rightarrow> bool" where
  "underscores_ok [] = False"
| "underscores_ok [c] = is_digit c"
| "underscores_ok (c # d # cs) =
     (if is_digit c then underscores_ok (d # cs)
      else c = CHR ''_'' \<and> is_digit d \<and> underscores_ok (d # cs))"

definition int_body :: "string \<Rightarrow> nat option" where
  "int_body b =
     (if b \<noteq> [] \<and> is_digit (hd b) \<and> underscores_ok b \<and>
         \<not> max_str_digits < length (filter is_digit b)
      then Some (digits_val (filter is_digit b)) else None)"

definition py_int :: "string \<Rightarrow> int option" where
  "py_int s =
     (let t = int_strip s in
      case t of
        [] \<Rightarrow> None
      | c # cs \<Rightarrow>
          if c = CHR ''-'' then map_option (\<lambda>n. - int n) (int_body cs)
          else if c = CHR ''+'' then map_option int (int_body cs)
          else map_option int (int_body t))"

text \<open>
  \<^verbatim>\<open>list(range(start, stop, step))\<close>. A zero step raises \<^verbatim>\<open>ValueError\<close>; the length is the
  one CPython computes, and a length beyond the largest list size (\<open>2^63 - 1\<close>) raises
  \<^verbatim>\<open>OverflowError\<close> when the list is made.
\<close>

definition range_len :: "int \<Rightarrow> int \<Rightarrow> int \<Rightarrow> nat" where
  "range_len start stop step =
     (if step > 0 then (if start < stop then nat ((stop - start - 1) div step + 1) else 0)
      else (if stop < start then nat ((start - stop - 1) div (- step) + 1) else 0))"

definition ssize_max :: nat where
  "ssize_max = 2 ^ 63 - 1"

definition py_range :: "int \<Rightarrow> int \<Rightarrow> int \<Rightarrow> exn + int list" where
  "py_range start stop step =
     (if step = 0 then Inl ValueError
      else if ssize_max < range_len start stop step then Inl OverflowError
      else Inr (map (\<lambda>i. start + int i * step) [0 ..< range_len start stop step]))"

subsection \<open>The range patterns \<^verbatim>\<open>re_range\<close> and \<^verbatim>\<open>re_range_count\<close>\<close>

text \<open>
  \<^verbatim>\<open>re_range = \s*([+-]?\s*\d+)\s*-\s*([+-]?\s*\d+)(?:\s*\(([+-]\d+)\s*\))?\s*\<close>

  \<^verbatim>\<open>re_range_count = \s*([+-]?\s*\d+)\s*-\s*([+-]?\s*\d+)(?:\s*\[(\d+)\s*])?\s*\<close>

  Both are used with \<^verbatim>\<open>fullmatch\<close>. At every position the alternatives of these patterns
  start with characters of disjoint classes (whitespace, sign, digit, bracket), so the
  greedy match never backtracks and is computed left to right. A match returns the text
  of the three groups, the third being \<open>None\<close> when the optional part is absent.
\<close>

definition is_sign :: "char \<Rightarrow> bool" where
  "is_sign c = (c = CHR ''+'' \<or> c = CHR ''-'')"

text \<open>\<^verbatim>\<open>\d+\<close>: the digits taken and the rest.\<close>

definition match_digits :: "string \<Rightarrow> (string \<times> string) option" where
  "match_digits s =
     (let ds = takeWhile is_digit s in
      if ds = [] then None else Some (ds, dropWhile is_digit s))"

text \<open>\<^verbatim>\<open>[+-]?\s*\d+\<close>: the group text and the rest.\<close>

definition match_number :: "string \<Rightarrow> (string \<times> string) option" where
  "match_number s =
     (let sg = (case s of [] \<Rightarrow> [] | c # _ \<Rightarrow> if is_sign c then [c] else []);
          s1 = drop (length sg) s;
          ws = takeWhile is_space s1
      in case match_digits (dropWhile is_space s1) of
           None \<Rightarrow> None
         | Some (ds, r) \<Rightarrow> Some (sg @ ws @ ds, r))"

text \<open>The common prefix \<^verbatim>\<open>\s*(number)\s*-\s*(number)\<close> of the two patterns.\<close>

definition match_bounds :: "string \<Rightarrow> (string \<times> string \<times> string) option" where
  "match_bounds s =
     (case match_number (dropWhile is_space s) of
        None \<Rightarrow> None
      | Some (g1, r1) \<Rightarrow>
          (case dropWhile is_space r1 of
             [] \<Rightarrow> None
           | c # r2 \<Rightarrow>
               if c \<noteq> CHR ''-'' then None
               else (case match_number (dropWhile is_space r2) of
                       None \<Rightarrow> None
                     | Some (g2, r3) \<Rightarrow> Some (g1, g2, r3))))"

text \<open>\<^verbatim>\<open>\(([+-]\d+)\s*\)\<close> after the opening parenthesis, then \<^verbatim>\<open>\s*\<close> to the end.\<close>

definition match_step :: "string \<Rightarrow> string option" where
  "match_step s =
     (case s of
        [] \<Rightarrow> None
      | c # r \<Rightarrow>
          if \<not> is_sign c then None
          else (case match_digits r of
                  None \<Rightarrow> None
                | Some (ds, r1) \<Rightarrow>
                    (case dropWhile is_space r1 of
                       [] \<Rightarrow> None
                     | d # r2 \<Rightarrow>
                         if d = CHR '')'' \<and> dropWhile is_space r2 = [] then Some (c # ds)
                         else None)))"

definition re_range_fullmatch :: "string \<Rightarrow> (string \<times> string \<times> string option) option" where
  "re_range_fullmatch s =
     (case match_bounds s of
        None \<Rightarrow> None
      | Some (g1, g2, r) \<Rightarrow>
          (case dropWhile is_space r of
             [] \<Rightarrow> Some (g1, g2, None)
           | c # r1 \<Rightarrow>
               if c \<noteq> CHR ''('' then None
               else (case match_step r1 of
                       None \<Rightarrow> None
                     | Some g3 \<Rightarrow> Some (g1, g2, Some g3))))"

text \<open>\<^verbatim>\<open>\[(\d+)\s*]\<close> after the opening bracket, then \<^verbatim>\<open>\s*\<close> to the end.\<close>

definition match_count :: "string \<Rightarrow> string option" where
  "match_count s =
     (case match_digits s of
        None \<Rightarrow> None
      | Some (ds, r1) \<Rightarrow>
          (case dropWhile is_space r1 of
             [] \<Rightarrow> None
           | d # r2 \<Rightarrow>
               if d = CHR '']'' \<and> dropWhile is_space r2 = [] then Some ds else None))"

definition re_range_count_fullmatch ::
  "string \<Rightarrow> (string \<times> string \<times> string option) option" where
  "re_range_count_fullmatch s =
     (case match_bounds s of
        None \<Rightarrow> None
      | Some (g1, g2, r) \<Rightarrow>
          (case dropWhile is_space r of
             [] \<Rightarrow> Some (g1, g2, None)
           | c # r1 \<Rightarrow>
               if c \<noteq> CHR ''['' then None
               else (case match_count r1 of
                       None \<Rightarrow> None
                     | Some g3 \<Rightarrow> Some (g1, g2, Some g3))))"

subsection \<open>\<^verbatim>\<open>csv_string_to_list_strip\<close>\<close>

text \<open>
  \<^verbatim>\<open>csv.reader(StringIO(data_str), skipinitialspace=True)\<close>: the reader of the standard
  library (CPython 3.11) with the default dialect (delimiter comma, quote character \<^verbatim>\<open>"\<close>,
  doubled quotes, no escape character, not strict), modelled after its state machine. The
  \<^verbatim>\<open>StringIO\<close> yields the text line by line, each line ending with its \<^verbatim>\<open>\n\<close>.
\<close>

fun io_lines :: "string \<Rightarrow> string \<Rightarrow> string list" where
  "io_lines acc [] = (if acc = [] then [] else [acc])"
| "io_lines acc (c # cs) =
     (if c = CHR 0x0A then (acc @ [c]) # io_lines [] cs else io_lines (acc @ [c]) cs)"

datatype csv_state = START_RECORD | START_FIELD | IN_FIELD | IN_QUOTED_FIELD
  | QUOTE_IN_QUOTED_FIELD | EAT_CRNL

record csv_reader =
  state :: csv_state
  field :: string
  row :: "string list"

definition parse_reset :: csv_reader where
  "parse_reset = \<lparr>state = START_RECORD, field = [], row = []\<rparr>"

definition field_limit :: nat where
  "field_limit = 131072"

definition parse_save_field :: "csv_reader \<Rightarrow> csv_reader" where
  "parse_save_field r = r\<lparr>row := row r @ [field r], field := []\<rparr>"

definition parse_add_char :: "csv_reader \<Rightarrow> char \<Rightarrow> exn + csv_reader" where
  "parse_add_char r c =
     (if \<not> length (field r) < field_limit then Inl CsvError
      else Inr (r\<lparr>field := field r @ [c]\<rparr>))"

definition is_newline :: "char \<Rightarrow> bool" where
  "is_newline c = (c = CHR 0x0A \<or> c = CHR 0x0D)"

text \<open>
  \<^verbatim>\<open>parse_process_char\<close>; the argument \<open>None\<close> is the end-of-line marker the reader feeds
  after each line. \<open>START_RECORD\<close> falls through to \<open>START_FIELD\<close> on an ordinary character.
\<close>

definition start_field :: "csv_reader \<Rightarrow> char option \<Rightarrow> exn + csv_reader" where
  "start_field r co =
     (case co of
        None \<Rightarrow> Inr ((parse_save_field r)\<lparr>state := START_RECORD\<rparr>)
      | Some c \<Rightarrow>
          if is_newline c then Inr ((parse_save_field r)\<lparr>state := EAT_CRNL\<rparr>)
          else if c = CHR 0x22 then Inr (r\<lparr>state := IN_QUOTED_FIELD\<rparr>)
          else if c = CHR '' '' then Inr r
          else if c = CHR '','' then Inr (parse_save_field r)
          else (case parse_add_char r c of
                  Inl e \<Rightarrow> Inl e
                | Inr r' \<Rightarrow> Inr (r'\<lparr>state := IN_FIELD\<rparr>)))"

definition parse_process_char :: "csv_reader \<Rightarrow> char option \<Rightarrow> exn + csv_reader" where
  "parse_process_char r co =
     (case state r of
        START_RECORD \<Rightarrow>
          (case co of
             None \<Rightarrow> Inr r
           | Some c \<Rightarrow>
               if is_newline c then Inr (r\<lparr>state := EAT_CRNL\<rparr>)
               else start_field (r\<lparr>state := START_FIELD\<rparr>) co)
      | START_FIELD \<Rightarrow> start_field r co
      | IN_FIELD \<Rightarrow>
          (case co of
             None \<Rightarrow> Inr ((parse_save_field r)\<lparr>state := START_RECORD\<rparr>)
           | Some c \<Rightarrow>
               if is_newline c then Inr ((parse_save_field r)\<lparr>state := EAT_CRNL\<rparr>)
               else if c = CHR '','' then Inr ((parse_save_field r)\<lparr>state := START_FIELD\<rparr>)
               else parse_add_char r c)
      | IN_QUOTED_FIELD \<Rightarrow>
          (case co of
             None \<Rightarrow> Inr r
           | Some c \<Rightarrow>
               if c = CHR 0x22 then Inr (r\<lparr>state := QUOTE_IN_QUOTED_FIELD\<rparr>)
               else parse_add_char r c)
      | QUOTE_IN_QUOTED_FIELD \<Rightarrow>
          (case co of
             None \<Rightarrow> Inr ((parse_save_field r)\<lparr>state := START_RECORD\<rparr>)
           | Some c \<Rightarrow>
               if c = CHR 0x22 then
                 (case parse_add_char r c of
                    Inl e \<Rightarrow> Inl e
                  | Inr r' \<Rightarrow> Inr (r'\<lparr>state := IN_QUOTED_FIELD\<rparr>))
               else if c = CHR '','' then Inr ((parse_save_field r)\<lparr>state := START_FIELD\<rparr>)
               else if is_newline c then Inr ((parse_save_field r)\<lparr>state := EAT_CRNL\<rparr>)
               else (case parse_add_char r c of
                       Inl e \<Rightarrow> Inl e
                     | Inr r' \<Rightarrow> Inr (r'\<lparr>state := IN_FIELD\<rparr>)))
      | EAT_CRNL \<Rightarrow>
          (case co of
             None \<Rightarrow> Inr (r\<lparr>state := START_RECORD\<rparr>)
           | Some c \<Rightarrow> if is_newline c then Inr r else Inl CsvError))"

text \<open>The characters of one line, in order.\<close>

fun parse_line :: "csv_reader \<Rightarrow> string \<Rightarrow> exn + csv_reader" where
  "parse_line r [] = Inr r"
| "parse_line r (c # cs) =
     (case parse_process_char r (Some c) of
        Inl e \<Rightarrow> Inl e
      | Inr r' \<Rightarrow> parse_line r' cs)"

text \<open>
  \<^verbatim>\<open>Reader.__next__\<close>, repeated until the lines are used up: a record is complete when the
  state is back to \<open>START_RECORD\<close> after a line; at the end of the input a record that was
  begun is returned as it stands.
\<close>

fun csv_rows :: "csv_reader \<Rightarrow> string list \<Rightarrow> exn + string list list" where
  "csv_rows r [] =
     (if field r \<noteq> [] \<or> state r = IN_QUOTED_FIELD then Inr [row (parse_save_field r)]
      else Inr [])"
| "csv_rows r (l # ls) =
     (case parse_line r l of
        Inl e \<Rightarrow> Inl e
      | Inr r1 \<Rightarrow>
          (case parse_process_char r1 None of
             Inl e \<Rightarrow> Inl e
           | Inr r2 \<Rightarrow>
               if state r2 = START_RECORD then
                 (case csv_rows parse_reset ls of
                    Inl e \<Rightarrow> Inl e
                  | Inr rows \<Rightarrow> Inr (row r2 # rows))
               else csv_rows r2 ls))"

definition csv_string_to_list_strip :: "string \<Rightarrow> exn + string list" where
  "csv_string_to_list_strip data_str =
     (case csv_rows parse_reset (io_lines [] data_str) of
        Inl e \<Rightarrow> Inl e
      | Inr rows \<Rightarrow> Inr (map py_strip (concat rows)))"

subsection \<open>The store: request objects, lists and dictionaries\<close>

text \<open>
  The render request \<^verbatim>\<open>p\<close> is a Python object whose attributes hold numbers and strings
  and references to list and dictionary objects (\<^verbatim>\<open>p.styles\<close>, \<^verbatim>\<open>p.override_settings\<close>,
  \<^verbatim>\<open>p.extra_generation_params\<close>). The store is the list of all objects; an address is a
  position in it, and a new object is appended.
\<close>

type_synonym addr = nat

datatype obj = OInst "string \<rightharpoonup> pyval" | OList "pyval list" | ODict "string \<rightharpoonup> pyval"

type_synonym store = "obj list"

definition lookup :: "store \<Rightarrow> addr \<Rightarrow> obj option" where
  "lookup st a = (if a < length st then Some (st ! a) else None)"

definition alloc :: "store \<Rightarrow> obj \<Rightarrow> addr \<times> store" where
  "alloc st ob = (length st, st @ [ob])"

text \<open>\<^verbatim>\<open>getattr(o, f)\<close> and \<^verbatim>\<open>setattr(o, f, v)\<close> on the object at an address.\<close>

definition getattr :: "store \<Rightarrow> addr \<Rightarrow> string \<Rightarrow> exn + pyval" where
  "getattr st a f =
     (case lookup st a of
        Some (OInst t) \<Rightarrow> (case t f of Some v \<Rightarrow> Inr v | None \<Rightarrow> Inl AttributeError)
      | _ \<Rightarrow> Inl AttributeError)"

definition setattr :: "store \<Rightarrow> addr \<Rightarrow> string \<Rightarrow> pyval \<Rightarrow> exn + store" where
  "setattr st a f v =
     (case lookup st a of
        Some (OInst t) \<Rightarrow> Inr (st[a := OInst (t(f \<mapsto> v))])
      | _ \<Rightarrow> Inl AttributeError)"

text \<open>
  \<^verbatim>\<open>copy(o)\<close> of the module \<^verbatim>\<open>copy\<close>: a new object with the same attribute table (or the same
  elements); what the attributes refer to is not copied.
\<close>

definition py_copy :: "store \<Rightarrow> addr \<Rightarrow> exn + addr \<times> store" where
  "py_copy st a =
     (case lookup st a of
        Some ob \<Rightarrow> Inr (alloc st ob)
      | None \<Rightarrow> Inl AttributeError)"

text \<open>\<^verbatim>\<open>o.f[key] = v\<close> where the attribute \<^verbatim>\<open>f\<close> refers to a dictionary.\<close>

definition dict_setitem :: "store \<Rightarrow> addr \<Rightarrow> string \<Rightarrow> string \<Rightarrow> pyval \<Rightarrow> exn + store" where
  "dict_setitem st a f key v =
     (case getattr st a f of
        Inl e \<Rightarrow> Inl e
      | Inr (VRef d) \<Rightarrow>
          (case lookup st d of
             Some (ODict m) \<Rightarrow> Inr (st[d := ODict (m(key \<mapsto> v))])
           | _ \<Rightarrow> Inl TypeError)
      | Inr _ \<Rightarrow> Inl TypeError)"

text \<open>The dictionary an attribute refers to, for reading.\<close>

definition dict_of :: "store \<Rightarrow> addr \<Rightarrow> string \<Rightarrow> (string \<rightharpoonup> pyval) option" where
  "dict_of st a f =
     (case getattr st a f of
        Inr (VRef d) \<Rightarrow> (case lookup st d of Some (ODict m) \<Rightarrow> Some m | _ \<Rightarrow> None)
      | _ \<Rightarrow> None)"

text \<open>The list an attribute refers to, for reading.\<close>

definition list_of_attr :: "store \<Rightarrow> addr \<Rightarrow> string \<Rightarrow> pyval list option" where
  "list_of_attr st a f =
     (case getattr st a f of
        Inr (VRef d) \<Rightarrow> (case lookup st d of Some (OList l) \<Rightarrow> Some l | _ \<Rightarrow> None)
      | _ \<Rightarrow> None)"

subsection \<open>Apply functions of the axis options\<close>

text \<open>
  An apply function receives the request, the value and the value list of its axis and
  mutates the request. The ones below are those of the source whose effect is a plain
  store update.
\<close>

type_synonym apply_fun = "addr \<Rightarrow> pyval \<Rightarrow> pyval list \<Rightarrow> store \<Rightarrow> exn + store"

definition apply_field :: "string \<Rightarrow> apply_fun" where
  "apply_field fld p x xs st = setattr st p fld x"

definition do_nothing :: apply_fun where
  "do_nothing p x xs st = Inr st"

text \<open>\<^verbatim>\<open>str.lower\<close> on the code points below 256.\<close>

definition lower_char :: "char \<Rightarrow> char" where
  "lower_char c = (let n = (of_char c :: nat) in
     if (65 \<le> n \<and> n \<le> 90) \<or> (192 \<le> n \<and> n \<le> 222 \<and> n \<noteq> 215) then char_of (n + 32) else c)"

definition py_lower :: "string \<Rightarrow> string" where
  "py_lower s = map lower_char s"

definition apply_override :: "string \<Rightarrow> bool \<Rightarrow> apply_fun" where
  "apply_override fld boolean p x xs st =
     (if boolean then
        (case x of
           VStr s \<Rightarrow> dict_setitem st p ''override_settings'' fld (VBool (py_lower s = ''true''))
         | _ \<Rightarrow> Inl AttributeError)
      else dict_setitem st p ''override_settings'' fld x)"

text \<open>\<^verbatim>\<open>x.split(",")\<close>: the pieces between commas, always at least one.\<close>

fun split_comma :: "string \<Rightarrow> string \<Rightarrow> string list" where
  "split_comma acc [] = [acc]"
| "split_comma acc (c # cs) =
     (if c = CHR '','' then acc # split_comma [] cs else split_comma (acc @ [c]) cs)"

definition apply_styles :: apply_fun where
  "apply_styles p x xs st =
     (case getattr st p ''styles'' of
        Inl e \<Rightarrow> Inl e
      | Inr (VRef a) \<Rightarrow>
          (case lookup st a of
             Some (OList l) \<Rightarrow>
               (case x of
                  VStr s \<Rightarrow> Inr (st[a := OList (l @ map VStr (split_comma [] s))])
                | _ \<Rightarrow> Inl AttributeError)
           | _ \<Rightarrow> Inl AttributeError)
      | Inr _ \<Rightarrow> Inl AttributeError)"

definition apply_uni_pc_order :: apply_fun where
  "apply_uni_pc_order p x xs st =
     (case getattr st p ''steps'' of
        Inl e \<Rightarrow> Inl e
      | Inr (VInt steps) \<Rightarrow>
          (case x of
             VInt n \<Rightarrow> dict_setitem st p ''override_settings'' ''uni_pc_order'' (VInt (min n (steps - 1)))
           | _ \<Rightarrow> Inl TypeError)
      | Inr _ \<Rightarrow> Inl TypeError)"

subsection \<open>Axis options\<close>

datatype axis_type = TInt | TFloat | TStr | TStrPermutations

text \<open>
  \<^verbatim>\<open>class AxisOption\<close>. \<open>choices\<close> and \<open>prepare\<close> are \<open>None\<close> as in the source when absent;
  \<open>confirm\<close> returns the exception it raises, if any.
\<close>

record axis_option =
  label :: string
  otype :: axis_type
  oapply :: apply_fun
  format_value :: "pyval \<Rightarrow> pyval"
  confirm :: "(pyval list \<Rightarrow> exn option) option"
  cost :: rat
  choices :: "string list option"
  prepare :: "(string \<Rightarrow> exn + string list) option"

text \<open>Entries of the table \<^verbatim>\<open>axis_options\<close> used below; the formatter is left open.\<close>

definition opt_nothing :: "(pyval \<Rightarrow> pyval) \<Rightarrow> axis_option" where
  "opt_nothing fmt = \<lparr>label = ''Nothing'', otype = TStr, oapply = do_nothing,
     format_value = fmt, confirm = None, cost = 0, choices = None, prepare = None\<rparr>"

definition opt_seed :: "(pyval \<Rightarrow> pyval) \<Rightarrow> axis_option" where
  "opt_seed fmt = \<lparr>label = ''Seed'', otype = TInt, oapply = apply_field ''seed'',
     format_value = fmt, confirm = None, cost = 0, choices = None, prepare = None\<rparr>"

definition opt_steps :: "(pyval \<Rightarrow> pyval) \<Rightarrow> axis_option" where
  "opt_steps fmt = \<lparr>label = ''Steps'', otype = TInt, oapply = apply_field ''steps'',
     format_value = fmt, confirm = None, cost = 0, choices = None, prepare = None\<rparr>"

definition opt_clip_skip :: "(pyval \<Rightarrow> pyval) \<Rightarrow> axis_option" where
  "opt_clip_skip fmt = \<lparr>label = ''Clip skip'', otype = TInt,
     oapply = apply_override ''CLIP_stop_at_last_layers'' False,
     format_value = fmt, confirm = None, cost = 0, choices = None, prepare = None\<rparr>"

definition opt_styles :: "(pyval \<Rightarrow> pyval) \<Rightarrow> string list \<Rightarrow> axis_option" where
  "opt_styles fmt style_names = \<lparr>label = ''Styles'', otype = TStr, oapply = apply_styles,
     format_value = fmt, confirm = None, cost = 0, choices = Some style_names,
     prepare = None\<rparr>"

subsection \<open>\<^verbatim>\<open>process_axis\<close>\<close>

text \<open>
  The floating-point part of the parser is a parameter: \<open>linspace_int start stop num\<close> is
  \<^verbatim>\<open>[int(x) for x in np.linspace(start, stop, num).tolist()]\<close>, \<open>expand_float_token\<close> is the
  body of the loop of the float branch for one token, \<open>to_float\<close> is \<^verbatim>\<open>float(x)\<close>.
\<close>

record float_lib =
  linspace_int :: "int \<Rightarrow> int \<Rightarrow> int \<Rightarrow> exn + int list"
  expand_float_token :: "string \<Rightarrow> exn + pyval list"
  to_float :: "pyval \<Rightarrow> exn + pyval"

text \<open>
  The body of the loop of the integer branch for one token that is not blank: the
  values it adds to \<^verbatim>\<open>valslist_ext\<close>.
\<close>

definition expand_int_token :: "float_lib \<Rightarrow> string \<Rightarrow> exn + pyval list" where
  "expand_int_token np val =
     (case re_range_fullmatch val of
        Some (g1, g2, g3) \<Rightarrow>
          (case py_int g1 of
             None \<Rightarrow> Inl ValueError
           | Some start \<Rightarrow>
               (case py_int g2 of
                  None \<Rightarrow> Inl ValueError
                | Some e \<Rightarrow>
                    (case (case g3 of None \<Rightarrow> Some 1 | Some t \<Rightarrow> py_int t) of
                       None \<Rightarrow> Inl ValueError
                     | Some step \<Rightarrow>
                         (case py_range start (e + 1) step of
                            Inl ex \<Rightarrow> Inl ex
                          | Inr l \<Rightarrow> Inr (map VInt l)))))
      | None \<Rightarrow>
          (case re_range_count_fullmatch val of
             Some (g1, g2, g3) \<Rightarrow>
               (case py_int g1 of
                  None \<Rightarrow> Inl ValueError
                | Some start \<Rightarrow>
                    (case py_int g2 of
                       None \<Rightarrow> Inl ValueError
                     | Some e \<Rightarrow>
                         (case (case g3 of None \<Rightarrow> Some 1 | Some t \<Rightarrow> py_int t) of
                            None \<Rightarrow> Inl ValueError
                          | Some num \<Rightarrow>
                              (case linspace_int np start e num of
                                 Inl ex \<Rightarrow> Inl ex
                               | Inr l \<Rightarrow> Inr (map VInt l)))))
           | None \<Rightarrow> Inr [VStr val]))"

text \<open>The loop over the tokens; a blank token is skipped.\<close>

fun expand_tokens :: "(string \<Rightarrow> exn + pyval list) \<Rightarrow> string list \<Rightarrow> exn + pyval list" where
  "expand_tokens f [] = Inr []"
| "expand_tokens f (val # vals) =
     (if py_strip val = [] then expand_tokens f vals
      else (case f val of
              Inl e \<Rightarrow> Inl e
            | Inr l \<Rightarrow>
                (case expand_tokens f vals of
                   Inl e \<Rightarrow> Inl e
                 | Inr r \<Rightarrow> Inr (l @ r))))"

text \<open>
  \<^verbatim>\<open>list(itertools.permutations(xs))\<close>: every ordering of the positions of \<open>xs\<close>, in
  lexicographic order of the positions.
\<close>

fun picks :: "'a list \<Rightarrow> ('a \<times> 'a list) list" where
  "picks [] = []"
| "picks (x # xs) = (x, xs) # map (\<lambda>(y, ys). (y, x # ys)) (picks xs)"

fun perms_of :: "nat \<Rightarrow> 'a list \<Rightarrow> 'a list list" where
  "perms_of 0 xs = [[]]"
| "perms_of (Suc n) xs = concat (map (\<lambda>(y, ys). map ((#) y) (perms_of n ys)) (picks xs))"

definition permutations :: "'a list \<Rightarrow> 'a list list" where
  "permutations xs = perms_of (length xs) xs"

text \<open>\<^verbatim>\<open>opt.type(x)\<close> for one value of the expanded list.\<close>

definition coerce :: "float_lib \<Rightarrow> axis_type \<Rightarrow> pyval \<Rightarrow> exn + pyval" where
  "coerce np t v =
     (case t of
        TInt \<Rightarrow>
          (case v of
             VInt n \<Rightarrow> Inr (VInt n)
           | VStr s \<Rightarrow> (case py_int s of None \<Rightarrow> Inl ValueError | Some n \<Rightarrow> Inr (VInt n))
           | _ \<Rightarrow> Inl TypeError)
      | TFloat \<Rightarrow> to_float np v
      | TStr \<Rightarrow> Inr v
      | TStrPermutations \<Rightarrow> Inr v)"

fun coerce_all :: "float_lib \<Rightarrow> axis_type \<Rightarrow> pyval list \<Rightarrow> exn + pyval list" where
  "coerce_all np t [] = Inr []"
| "coerce_all np t (v # vs) =
     (case coerce np t v of
        Inl e \<Rightarrow> Inl e
      | Inr w \<Rightarrow>
          (case coerce_all np t vs of
             Inl e \<Rightarrow> Inl e
           | Inr ws \<Rightarrow> Inr (w # ws)))"

definition process_axis ::
  "float_lib \<Rightarrow> bool \<Rightarrow> axis_option \<Rightarrow> string \<Rightarrow> string list \<Rightarrow> exn + pyval list" where
  "process_axis np csv_mode opt vals vals_dropdown =
     (if label opt = ''Nothing'' then Inr [VInt 0]
      else
        (case (if choices opt \<noteq> None \<and> \<not> csv_mode then Inr vals_dropdown
               else (case prepare opt of
                       Some f \<Rightarrow> f vals
                     | None \<Rightarrow> csv_string_to_list_strip vals)) of
           Inl e \<Rightarrow> Inl e
         | Inr valslist \<Rightarrow>
             (case (case otype opt of
                      TInt \<Rightarrow> expand_tokens (expand_int_token np) valslist
                    | TFloat \<Rightarrow> expand_tokens (expand_float_token np) valslist
                    | TStrPermutations \<Rightarrow> Inr (map VTuple (permutations valslist))
                    | TStr \<Rightarrow> Inr (map VStr valslist)) of
                Inl e \<Rightarrow> Inl e
              | Inr ext \<Rightarrow>
                  (case coerce_all np (otype opt) ext of
                     Inl e \<Rightarrow> Inl e
                   | Inr vs \<Rightarrow>
                       (case confirm opt of
                          None \<Rightarrow> Inr vs
                        | Some c \<Rightarrow> (case c vs of None \<Rightarrow> Inr vs | Some e \<Rightarrow> Inl e))))))"

subsection \<open>Results of the renderer and of the sweep\<close>

text \<open>
  \<^verbatim>\<open>class Processed\<close> of \<^verbatim>\<open>modules.processing\<close>, with the fields the script reads and
  writes. The renderer fills the lists with images, prompts and seeds; the container
  \<^verbatim>\<open>processed_result\<close> of \<^verbatim>\<open>draw_xyz_grid\<close> starts with lists of \<^verbatim>\<open>None\<close>, so its lists hold
  options.
\<close>

record ('i, 's, 'n) processed =
  images :: "'i list"
  all_prompts :: "'s list"
  all_seeds :: "'n list"
  infotexts :: "'s list"
  prompt :: string
  seed :: int
  width :: nat
  height :: nat
  index_of_first_image :: nat

type_synonym 'img cell_processed = "('img, string, int) processed"
type_synonym 'img grid_processed = "('img option, string option, int option) processed"

text \<open>
  The image library: \<^verbatim>\<open>Image.mode\<close>, \<^verbatim>\<open>Image.size\<close>, \<^verbatim>\<open>Image.new\<close> of PIL,
  \<^verbatim>\<open>images.image_grid(imgs, rows)\<close>, \<^verbatim>\<open>images.draw_grid_annotations\<close> with its horizontal and
  vertical texts and margin (an annotation without text is \<open>None\<close>), and the labelled copy
  that \<^verbatim>\<open>process_cell\<close> makes with \<^verbatim>\<open>image.copy()\<close> and \<^verbatim>\<open>draw_label_on_image\<close>.
\<close>

record 'img image_lib =
  img_mode :: "'img \<Rightarrow> string"
  img_size :: "'img \<Rightarrow> nat \<times> nat"
  Image_new :: "string \<Rightarrow> nat \<times> nat \<Rightarrow> 'img"
  image_grid :: "'img list \<Rightarrow> nat \<Rightarrow> 'img"
  draw_grid_annotations ::
    "'img \<Rightarrow> nat \<Rightarrow> nat \<Rightarrow> pyval option list \<Rightarrow> pyval option list \<Rightarrow> nat \<Rightarrow> 'img"
  draw_label_on_image :: "'img \<Rightarrow> pyval \<Rightarrow> pyval \<Rightarrow> pyval \<Rightarrow> 'img"

subsection \<open>\<^verbatim>\<open>draw_xyz_grid\<close>: the cells\<close>

text \<open>
  The function \<^verbatim>\<open>cell\<close> passed to \<^verbatim>\<open>draw_xyz_grid\<close> renders one cell. It reads and changes
  the state \<open>'w\<close> outside the grid (interruption flags, the request objects) and may
  raise.
\<close>

type_synonym ('img, 'w) cell_fun =
  "pyval \<Rightarrow> pyval \<Rightarrow> pyval \<Rightarrow> nat \<Rightarrow> nat \<Rightarrow> nat \<Rightarrow> 'w \<Rightarrow> (exn + 'img cell_processed) \<times> 'w"

text \<open>\<^verbatim>\<open>index(ix, iy, iz)\<close> of \<^verbatim>\<open>process_cell\<close>, with \<open>nx = len(xs)\<close> and \<open>ny = len(ys)\<close>.\<close>

definition index :: "nat \<Rightarrow> nat \<Rightarrow> nat \<Rightarrow> nat \<Rightarrow> nat \<Rightarrow> nat" where
  "index nx ny ix iy iz = ix + iy * nx + iz * nx * ny"

text \<open>\<^verbatim>\<open>l[i] = v\<close> and \<^verbatim>\<open>l[i]\<close> for an index that is not negative.\<close>

definition list_set :: "'a list \<Rightarrow> nat \<Rightarrow> 'a \<Rightarrow> exn + 'a list" where
  "list_set l i v = (if i < length l then Inr (l[i := v]) else Inl IndexError)"

definition list_get :: "'a list \<Rightarrow> nat \<Rightarrow> exn + 'a" where
  "list_get l i = (if i < length l then Inr (l ! i) else Inl IndexError)"

text \<open>
  The container made from the first result: \<^verbatim>\<open>copy(processed)\<close> with the four lists
  replaced by \<^verbatim>\<open>[None] * list_size\<close> and \<^verbatim>\<open>index_of_first_image = 1\<close>.
\<close>

definition result_template :: "'img cell_processed \<Rightarrow> nat \<Rightarrow> 'img grid_processed" where
  "result_template processed list_size =
     \<lparr>images = replicate list_size None, all_prompts = replicate list_size None,
      all_seeds = replicate list_size None, infotexts = replicate list_size None,
      prompt = prompt processed, seed = seed processed, width = width processed,
      height = height processed, index_of_first_image = 1\<rparr>"

text \<open>
  The two branches of \<^verbatim>\<open>process_cell\<close> after the container exists: a result with images
  stores its first image (a labelled copy when labels are drawn), prompt, seed and first
  infotext at \<open>idx\<close>; a result without images stores a new blank image whose mode and
  size are those of \<^verbatim>\<open>processed_result.images[0]\<close> when that entry is not \<^verbatim>\<open>None\<close>, and
  otherwise mode \<^verbatim>\<open>"P"\<close> and the container's width and height.
\<close>

definition store_cell ::
  "'img image_lib \<Rightarrow> bool \<Rightarrow> pyval list \<Rightarrow> pyval list \<Rightarrow> pyval list \<Rightarrow> nat \<Rightarrow> nat \<Rightarrow> nat \<Rightarrow>
   nat \<Rightarrow> 'img cell_processed \<Rightarrow> 'img grid_processed \<Rightarrow> exn + 'img grid_processed" where
  "store_cell lib draw_individual_labels x_labels y_labels z_labels ix iy iz idx processed pr =
     (case images processed of
        im # _ \<Rightarrow>
          (case (if draw_individual_labels then
                   (if ix < length x_labels \<and> iy < length y_labels \<and> iz < length z_labels
                    then Inr (draw_label_on_image lib im (x_labels ! ix) (y_labels ! iy)
                                (z_labels ! iz))
                    else Inl IndexError)
                 else Inr im) of
             Inl e \<Rightarrow> Inl e
           | Inr process_image \<Rightarrow>
               (case list_set (images pr) idx (Some process_image) of
                  Inl e \<Rightarrow> Inl e
                | Inr imgs \<Rightarrow>
                    (case list_set (all_prompts pr) idx (Some (prompt processed)) of
                       Inl e \<Rightarrow> Inl e
                     | Inr prompts \<Rightarrow>
                         (case list_set (all_seeds pr) idx (Some (seed processed)) of
                            Inl e \<Rightarrow> Inl e
                          | Inr seeds \<Rightarrow>
                              (case infotexts processed of
                                 [] \<Rightarrow> Inl IndexError
                               | t # _ \<Rightarrow>
                                   (case list_set (infotexts pr) idx (Some t) of
                                      Inl e \<Rightarrow> Inl e
                                    | Inr infos \<Rightarrow>
                                        Inr (pr\<lparr>images := imgs, all_prompts := prompts,
                                                all_seeds := seeds, infotexts := infos\<rparr>)))))))
      | [] \<Rightarrow>
          (case images pr of
             [] \<Rightarrow> Inl IndexError
           | first # _ \<Rightarrow>
               (let cell_mode = (case first of None \<Rightarrow> ''P'' | Some i0 \<Rightarrow> img_mode lib i0);
                    cell_size = (case first of None \<Rightarrow> (width pr, height pr)
                                 | Some i0 \<Rightarrow> img_size lib i0)
                in case list_set (images pr) idx (Some (Image_new lib cell_mode cell_size)) of
                     Inl e \<Rightarrow> Inl e
                   | Inr imgs \<Rightarrow> Inr (pr\<lparr>images := imgs\<rparr>))))"

text \<open>
  \<^verbatim>\<open>process_cell(x, y, z, ix, iy, iz)\<close>. The loop variables come in pairs \<open>(ix, x)\<close> as
  \<^verbatim>\<open>enumerate\<close> yields them. The state of the loops is the container, \<open>None\<close> before the
  first cell.
\<close>

definition process_cell ::
  "'img image_lib \<Rightarrow> bool \<Rightarrow> ('img, 'w) cell_fun \<Rightarrow> nat \<Rightarrow> nat \<Rightarrow> nat \<Rightarrow>
   pyval list \<Rightarrow> pyval list \<Rightarrow> pyval list \<Rightarrow> nat \<times> pyval \<Rightarrow> nat \<times> pyval \<Rightarrow> nat \<times> pyval \<Rightarrow>
   'img grid_processed option \<Rightarrow> 'w \<Rightarrow> (exn + 'img grid_processed option) \<times> 'w" where
  "process_cell lib draw_individual_labels cell nx ny list_size x_labels y_labels z_labels
     ixx iyy izz processed_result w =
     (case cell (snd ixx) (snd iyy) (snd izz) (fst ixx) (fst iyy) (fst izz) w of
        (Inl e, w') \<Rightarrow> (Inl e, w')
      | (Inr processed, w') \<Rightarrow>
          (let pr = (case processed_result of
                       None \<Rightarrow> result_template processed list_size
                     | Some r \<Rightarrow> r)
           in (case store_cell lib draw_individual_labels x_labels y_labels z_labels
                       (fst ixx) (fst iyy) (fst izz)
                       (index nx ny (fst ixx) (fst iyy) (fst izz)) processed pr of
                 Inl e \<Rightarrow> (Inl e, w')
               | Inr pr' \<Rightarrow> (Inr (Some pr'), w'))))"

text \<open>A \<^verbatim>\<open>for\<close> loop over a list whose body changes a state and may raise.\<close>

fun for_each ::
  "('a \<Rightarrow> 's \<Rightarrow> 'w \<Rightarrow> (exn + 's) \<times> 'w) \<Rightarrow> 'a list \<Rightarrow> 's \<Rightarrow> 'w \<Rightarrow> (exn + 's) \<times> 'w" where
  "for_each body [] s w = (Inr s, w)"
| "for_each body (a # as) s w =
     (case body a s w of
        (Inl e, w') \<Rightarrow> (Inl e, w')
      | (Inr s', w') \<Rightarrow> for_each body as s' w')"

text \<open>
  The three nests of loops of \<^verbatim>\<open>draw_xyz_grid\<close>, chosen by \<^verbatim>\<open>first_axes_processed\<close> and
  \<^verbatim>\<open>second_axes_processed\<close>; the \<^verbatim>\<open>else\<close> of each inner choice takes every other value of the
  second axis.
\<close>

definition sweep_cells ::
  "(nat \<times> pyval \<Rightarrow> nat \<times> pyval \<Rightarrow> nat \<times> pyval \<Rightarrow> 's \<Rightarrow> 'w \<Rightarrow> (exn + 's) \<times> 'w) \<Rightarrow>
   axis \<Rightarrow> axis \<Rightarrow> pyval list \<Rightarrow> pyval list \<Rightarrow> pyval list \<Rightarrow> 's \<Rightarrow> 'w \<Rightarrow> (exn + 's) \<times> 'w" where
  "sweep_cells pc first_axes_processed second_axes_processed xs ys zs =
     (let ex = enumerate 0 xs; ey = enumerate 0 ys; ez = enumerate 0 zs in
      case first_axes_processed of
        AX \<Rightarrow>
          for_each (\<lambda>ix.
            if second_axes_processed = AY
            then for_each (\<lambda>iy. for_each (\<lambda>iz. pc ix iy iz) ez) ey
            else for_each (\<lambda>iz. for_each (\<lambda>iy. pc ix iy iz) ey) ez) ex
      | AY \<Rightarrow>
          for_each (\<lambda>iy.
            if second_axes_processed = AX
            then for_each (\<lambda>ix. for_each (\<lambda>iz. pc ix iy iz) ez) ex
            else for_each (\<lambda>iz. for_each (\<lambda>ix. pc ix iy iz) ex) ez) ey
      | AZ \<Rightarrow>
          for_each (\<lambda>iz.
            if second_axes_processed = AX
            then for_each (\<lambda>ix. for_each (\<lambda>iy. pc ix iy iz) ey) ex
            else for_each (\<lambda>iy. for_each (\<lambda>ix. pc ix iy iz) ex) ey) ez)"

subsection \<open>\<^verbatim>\<open>draw_xyz_grid\<close>: the grids\<close>

text \<open>\<^verbatim>\<open>l.insert(i, v)\<close> and the slice \<^verbatim>\<open>l[a:b]\<close> for indices that are not negative.\<close>

definition list_insert :: "nat \<Rightarrow> 'a \<Rightarrow> 'a list \<Rightarrow> 'a list" where
  "list_insert i v l = take i l @ v # drop i l"

definition slice :: "nat \<Rightarrow> nat \<Rightarrow> 'a list \<Rightarrow> 'a list" where
  "slice a b l = take (b - a) (drop a l)"

text \<open>The image library is given images; an entry that is still \<^verbatim>\<open>None\<close> raises.\<close>

fun those_images :: "'img option list \<Rightarrow> exn + 'img list" where
  "those_images [] = Inr []"
| "those_images (None # r) = Inl AttributeError"
| "those_images (Some i # r) =
     (case those_images r of Inl e \<Rightarrow> Inl e | Inr l \<Rightarrow> Inr (i # l))"

text \<open>
  \<^verbatim>\<open>map(max, zip(*(img.size for img in imgs)))\<close> unpacked into two names: the largest width
  and the largest height; with no image there is nothing to unpack.
\<close>

definition max_size :: "'img image_lib \<Rightarrow> 'img list \<Rightarrow> exn + nat \<times> nat" where
  "max_size lib imgs =
     (if imgs = [] then Inl ValueError
      else Inr (Max (set (map (\<lambda>i. fst (img_size lib i)) imgs)),
                Max (set (map (\<lambda>i. snd (img_size lib i)) imgs))))"

text \<open>
  The body of the loop \<^verbatim>\<open>for i in range(z_count)\<close>: the grid of slice \<open>i\<close> is inserted at
  position \<open>i\<close> of the image list, and the prompt, seed and infotext found at the start of
  the slice are inserted at position \<open>i\<close> of their lists.
\<close>

definition sub_grid_step ::
  "'img image_lib \<Rightarrow> bool \<Rightarrow> nat \<Rightarrow> nat \<Rightarrow> pyval list \<Rightarrow> pyval list \<Rightarrow> nat \<Rightarrow> nat \<Rightarrow>
   'img grid_processed \<Rightarrow> exn + 'img grid_processed" where
  "sub_grid_step lib draw_legend nx ny x_labels y_labels margin_size i pr =
     (let start_index = i * nx * ny + i;
          end_index = start_index + nx * ny
      in case those_images (slice start_index end_index (images pr)) of
           Inl e \<Rightarrow> Inl e
         | Inr imgs \<Rightarrow>
             (case (if draw_legend then
                      (case max_size lib imgs of
                         Inl e \<Rightarrow> Inl e
                       | Inr (grid_max_w, grid_max_h) \<Rightarrow>
                           Inr (draw_grid_annotations lib (image_grid lib imgs ny)
                                  grid_max_w grid_max_h (map Some x_labels)
                                  (map Some y_labels) margin_size))
                    else Inr (image_grid lib imgs ny)) of
                Inl e \<Rightarrow> Inl e
              | Inr grid \<Rightarrow>
                  (case list_get (all_prompts pr) start_index of
                     Inl e \<Rightarrow> Inl e
                   | Inr pm \<Rightarrow>
                       (case list_get (all_seeds pr) start_index of
                          Inl e \<Rightarrow> Inl e
                        | Inr sd \<Rightarrow>
                            (case list_get (infotexts pr) start_index of
                               Inl e \<Rightarrow> Inl e
                             | Inr it \<Rightarrow>
                                 Inr (pr\<lparr>images := list_insert i (Some grid) (images pr),
                                         all_prompts := list_insert i pm (all_prompts pr),
                                         all_seeds := list_insert i sd (all_seeds pr),
                                         infotexts := list_insert i it (infotexts pr)\<rparr>))))))"

fun sub_grids ::
  "(nat \<Rightarrow> 'img grid_processed \<Rightarrow> exn + 'img grid_processed) \<Rightarrow> nat list \<Rightarrow>
   'img grid_processed \<Rightarrow> exn + 'img grid_processed" where
  "sub_grids step [] pr = Inr pr"
| "sub_grids step (i # is) pr =
     (case step i pr of Inl e \<Rightarrow> Inl e | Inr pr' \<Rightarrow> sub_grids step is pr')"

text \<open>
  The grid of the slice grids: it is inserted at position 0 of the image list, and the
  first infotext is inserted at position 0 of the infotexts. The lists of prompts and
  seeds are left as they are.
\<close>

definition top_grid ::
  "'img image_lib \<Rightarrow> bool \<Rightarrow> nat \<Rightarrow> pyval list \<Rightarrow> 'img grid_processed \<Rightarrow>
   exn + 'img grid_processed" where
  "top_grid lib draw_legend z_count z_labels pr =
     (case those_images (take z_count (images pr)) of
        Inl e \<Rightarrow> Inl e
      | Inr subs \<Rightarrow>
          (case max_size lib subs of
             Inl e \<Rightarrow> Inl e
           | Inr (z_sub_grid_max_w, z_sub_grid_max_h) \<Rightarrow>
               (let z_grid0 = image_grid lib subs 1;
                    z_grid = (if draw_legend
                              then draw_grid_annotations lib z_grid0 z_sub_grid_max_w
                                     z_sub_grid_max_h (map Some z_labels) [None] 0
                              else z_grid0)
                in case infotexts pr of
                     [] \<Rightarrow> Inl IndexError
                   | t # _ \<Rightarrow>
                       Inr (pr\<lparr>images := Some z_grid # images pr,
                               infotexts := t # infotexts pr\<rparr>))))"

text \<open>
  \<^verbatim>\<open>draw_xyz_grid\<close>. \<open>Processed_p\<close> is the object \<^verbatim>\<open>Processed(p, [])\<close> returned when nothing was
  processed: its image list is empty, its other fields are what the constructor makes
  of \<^verbatim>\<open>p\<close>. The parameters \<^verbatim>\<open>include_lone_images\<close> and \<^verbatim>\<open>include_sub_grids\<close> are not used by the
  source function, and the progress texts \<^verbatim>\<open>state.job\<close> are not kept.
\<close>

definition draw_xyz_grid ::
  "'img image_lib \<Rightarrow> ('w \<Rightarrow> 'img grid_processed) \<Rightarrow> pyval list \<Rightarrow> pyval list \<Rightarrow> pyval list \<Rightarrow>
   pyval list \<Rightarrow> pyval list \<Rightarrow> pyval list \<Rightarrow> ('img, 'w) cell_fun \<Rightarrow> bool \<Rightarrow> bool \<Rightarrow>
   axis \<Rightarrow> axis \<Rightarrow> nat \<Rightarrow> 'w \<Rightarrow> (exn + 'img grid_processed) \<times> 'w" where
  "draw_xyz_grid lib Processed_p xs ys zs x_labels y_labels z_labels cell draw_legend
     draw_individual_labels first_axes_processed second_axes_processed margin_size w =
     (let list_size = length xs * length ys * length zs in
      case sweep_cells
             (process_cell lib draw_individual_labels cell (length xs) (length ys) list_size
                x_labels y_labels z_labels)
             first_axes_processed second_axes_processed xs ys zs None w of
        (Inl e, w') \<Rightarrow> (Inl e, w')
      | (Inr None, w') \<Rightarrow> (Inr ((Processed_p w')\<lparr>images := []\<rparr>), w')
      | (Inr (Some pr), w') \<Rightarrow>
          if \<not> list_ex (\<lambda>i. i \<noteq> None) (images pr)
          then (Inr ((Processed_p w')\<lparr>images := []\<rparr>), w')
          else
            (case sub_grids
                    (sub_grid_step lib draw_legend (length xs) (length ys) x_labels y_labels
                       margin_size)
                    [0 ..< length zs] pr of
               Inl e \<Rightarrow> (Inl e, w')
             | Inr pr1 \<Rightarrow>
                 (case top_grid lib draw_legend (length zs) z_labels pr1 of
                    Inl e \<Rightarrow> (Inl e, w')
                  | Inr pr2 \<Rightarrow> (Inr pr2, w'))))"

subsection \<open>\<^verbatim>\<open>Script.run\<close>: the sweep without grid\<close>

text \<open>
  A \<^verbatim>\<open>for\<close> loop whose body starts with \<^verbatim>\<open>if state.interrupted: break\<close>; the flag is read
  from the state outside the sweep.
\<close>

fun for_break ::
  "('w \<Rightarrow> bool) \<Rightarrow> ('a \<Rightarrow> 's \<Rightarrow> 'w \<Rightarrow> (exn + 's) \<times> 'w) \<Rightarrow> 'a list \<Rightarrow> 's \<Rightarrow> 'w \<Rightarrow>
   (exn + 's) \<times> 'w" where
  "for_break stop body [] s w = (Inr s, w)"
| "for_break stop body (a # as) s w =
     (if stop w then (Inr s, w)
      else (case body a s w of
              (Inl e, w') \<Rightarrow> (Inl e, w')
            | (Inr s', w') \<Rightarrow> for_break stop body as s' w'))"

text \<open>
  The body of the innermost loop after the test of the flag: the cell is rendered, and
  \<^verbatim>\<open>if proc.images:\<close> its four lists are appended to those of the output.
\<close>

definition skip_grid_cell ::
  "('img, 'w) cell_fun \<Rightarrow> nat \<times> pyval \<Rightarrow> nat \<times> pyval \<Rightarrow> nat \<times> pyval \<Rightarrow>
   'img cell_processed \<Rightarrow> 'w \<Rightarrow> (exn + 'img cell_processed) \<times> 'w" where
  "skip_grid_cell cell ixx iyy izz processed w =
     (case cell (snd ixx) (snd iyy) (snd izz) (fst ixx) (fst iyy) (fst izz) w of
        (Inl e, w') \<Rightarrow> (Inl e, w')
      | (Inr proc, w') \<Rightarrow>
          (if images proc \<noteq> []
           then (Inr (processed\<lparr>images := images processed @ images proc,
                                 infotexts := infotexts processed @ infotexts proc,
                                 all_prompts := all_prompts processed @ all_prompts proc,
                                 all_seeds := all_seeds processed @ all_seeds proc\<rparr>), w')
           else (Inr processed, w')))"

text \<open>
  The loops of the branch \<^verbatim>\<open>if skip_grid:\<close>, always Z, then Y, then X; \<open>flag\<close> reads
  \<^verbatim>\<open>state.interrupted\<close>.
\<close>

definition skip_grid_cells ::
  "('w \<Rightarrow> bool) \<Rightarrow> ('img, 'w) cell_fun \<Rightarrow> pyval list \<Rightarrow> pyval list \<Rightarrow> pyval list \<Rightarrow>
   'img cell_processed \<Rightarrow> 'w \<Rightarrow> (exn + 'img cell_processed) \<times> 'w" where
  "skip_grid_cells flag cell xs ys zs =
     for_each (\<lambda>iz.
       for_each (\<lambda>iy.
         for_break flag (\<lambda>ix. skip_grid_cell cell ix iy iz) (enumerate 0 xs))
         (enumerate 0 ys))
       (enumerate 0 zs)"

text \<open>
  The branch \<^verbatim>\<open>if skip_grid:\<close> of \<^verbatim>\<open>Script.run\<close>. \<open>Processed_p\<close> is the object
  \<^verbatim>\<open>Processed(p, [], p.seed, "")\<close>, whose four lists are emptied before the loops. With
  \<^verbatim>\<open>opts.grid_save\<close> every image is saved with the infotext, prompt and seed found at its
  index, which raises when one of these lists is shorter than the list of images; the
  files written are not modelled.
\<close>

definition skip_grid_run ::
  "('w \<Rightarrow> bool) \<Rightarrow> ('img, 'w) cell_fun \<Rightarrow> bool \<Rightarrow> 'img cell_processed \<Rightarrow>
   pyval list \<Rightarrow> pyval list \<Rightarrow> pyval list \<Rightarrow> 'w \<Rightarrow> (exn + 'img cell_processed) \<times> 'w" where
  "skip_grid_run flag cell grid_save Processed_p xs ys zs w =
     (case skip_grid_cells flag cell xs ys zs
             (Processed_p\<lparr>images := [], infotexts := [], all_prompts := [], all_seeds := []\<rparr>)
             w of
        (Inl e, w') \<Rightarrow> (Inl e, w')
      | (Inr processed, w') \<Rightarrow>
          if grid_save \<and>
             (length (infotexts processed) < length (images processed) \<or>
              length (all_prompts processed) < length (images processed) \<or>
              length (all_seeds processed) < length (images processed))
          then (Inl IndexError, w')
          else (Inr processed, w'))"

subsection \<open>\<^verbatim>\<open>Script.run\<close>: the function \<^verbatim>\<open>cell\<close>\<close>

text \<open>
  The state outside the sweep: the objects of the store, the two flags of
  \<^verbatim>\<open>shared.state\<close> that \<^verbatim>\<open>cell\<close> and the loops read, the list \<^verbatim>\<open>grid_infotext\<close> of \<^verbatim>\<open>Script.run\<close>,
  and whatever else the renderer reads and changes.
\<close>

record 'r world =
  heap :: store
  interrupted :: bool
  stopping_generation :: bool
  grid_infotext :: "string option list"
  outside :: 'r

text \<open>
  What \<^verbatim>\<open>cell\<close> calls outside this script: \<^verbatim>\<open>process_images(pc)\<close>, which may raise and may
  change the state; the constructor \<^verbatim>\<open>Processed(p, [], p.seed, "")\<close>; the labelled copy of an
  image (copy, \<^verbatim>\<open>format_value\<close> of the three values, drawing), which may raise;
  \<^verbatim>\<open>images.save_image\<close>, which may raise; \<^verbatim>\<open>processing.create_infotext\<close>; \<^verbatim>\<open>str\<close> of a value; and the
  sum of a float and an integer.
\<close>

record ('img, 'r) renderer =
  process_images :: "addr \<Rightarrow> 'r world \<Rightarrow> (exn + 'img cell_processed) \<times> 'r world"
  Processed_empty :: "addr \<Rightarrow> 'r world \<Rightarrow> 'img cell_processed"
  label_image :: "'img \<Rightarrow> pyval \<Rightarrow> pyval \<Rightarrow> pyval \<Rightarrow> exn + 'img"
  save_image :: "'img \<Rightarrow> 'r world \<Rightarrow> exn option \<times> 'r world"
  create_infotext :: "addr \<Rightarrow> 'r world \<Rightarrow> exn + string"
  str_of :: "pyval \<Rightarrow> string"
  float_add :: "pyfloat \<Rightarrow> int \<Rightarrow> pyfloat"

text \<open>
  The variables of \<^verbatim>\<open>Script.run\<close> that \<^verbatim>\<open>cell\<close> closes over: the request \<^verbatim>\<open>p\<close>, the three
  axis options, the three value lists \<^verbatim>\<open>xs\<close>, \<^verbatim>\<open>ys\<close>, \<^verbatim>\<open>zs\<close>, the check boxes, \<^verbatim>\<open>opts.grid_save\<close>,
  the texts of the value boxes and the title of the script.
\<close>

record closure =
  c_p :: addr
  c_x_opt :: axis_option
  c_y_opt :: axis_option
  c_z_opt :: axis_option
  c_xs :: "pyval list"
  c_ys :: "pyval list"
  c_zs :: "pyval list"
  c_vary_seeds_x :: bool
  c_vary_seeds_y :: bool
  c_vary_seeds_z :: bool
  c_draw_individual_labels :: bool
  c_grid_save :: bool
  c_no_fixed_seeds :: bool
  c_x_values :: string
  c_y_values :: string
  c_z_values :: string
  c_title :: string

text \<open>
  \<^verbatim>\<open>pc = copy(p); pc.styles = pc.styles[:]\<close>. The clone shares with \<^verbatim>\<open>p\<close> every object its
  attributes refer to, except the list of styles, which is copied. The slice of a
  string or tuple is the value itself; anything else that is not a list raises.
\<close>

definition clone_request :: "addr \<Rightarrow> store \<Rightarrow> exn + addr \<times> store" where
  "clone_request p st =
     (case py_copy st p of
        Inl e \<Rightarrow> Inl e
      | Inr (pc, st1) \<Rightarrow>
          (case getattr st1 pc ''styles'' of
             Inl e \<Rightarrow> Inl e
           | Inr (VRef a) \<Rightarrow>
               (case lookup st1 a of
                  Some (OList l) \<Rightarrow>
                    (case setattr (snd (alloc st1 (OList l))) pc ''styles''
                            (VRef (fst (alloc st1 (OList l)))) of
                       Inl e \<Rightarrow> Inl e
                     | Inr st2 \<Rightarrow> Inr (pc, st2))
                | _ \<Rightarrow> Inl TypeError)
           | Inr (VStr t) \<Rightarrow> Inr (pc, st1)
           | Inr (VTuple t) \<Rightarrow> Inr (pc, st1)
           | Inr _ \<Rightarrow> Inl TypeError))"

text \<open>The three calls \<^verbatim>\<open>x_opt.apply(pc, x, xs)\<close>, \<^verbatim>\<open>y_opt.apply(pc, y, ys)\<close>, \<^verbatim>\<open>z_opt.apply(pc, z, zs)\<close>.\<close>

definition apply_axes ::
  "closure \<Rightarrow> addr \<Rightarrow> pyval \<Rightarrow> pyval \<Rightarrow> pyval \<Rightarrow> store \<Rightarrow> exn + store" where
  "apply_axes c pc x y z st =
     (case oapply (c_x_opt c) pc x (c_xs c) st of
        Inl e \<Rightarrow> Inl e
      | Inr st1 \<Rightarrow>
          (case oapply (c_y_opt c) pc y (c_ys c) st1 of
             Inl e \<Rightarrow> Inl e
           | Inr st2 \<Rightarrow> oapply (c_z_opt c) pc z (c_zs c) st2))"

text \<open>\<^verbatim>\<open>pc.seed += k\<close> for an integer \<open>k\<close>.\<close>

definition seed_add :: "(pyfloat \<Rightarrow> int \<Rightarrow> pyfloat) \<Rightarrow> store \<Rightarrow> addr \<Rightarrow> int \<Rightarrow> exn + store" where
  "seed_add fadd st pc k =
     (case getattr st pc ''seed'' of
        Inl e \<Rightarrow> Inl e
      | Inr (VInt n) \<Rightarrow> setattr st pc ''seed'' (VInt (n + k))
      | Inr (VBool b) \<Rightarrow> setattr st pc ''seed'' (VInt ((if b then 1 else 0) + k))
      | Inr (VFloat f) \<Rightarrow> setattr st pc ''seed'' (VFloat (fadd f k))
      | Inr _ \<Rightarrow> Inl TypeError)"

text \<open>The seed variation: \<^verbatim>\<open>xdim\<close>, \<^verbatim>\<open>ydim\<close> and the three conditional additions.\<close>

definition vary_seed ::
  "(pyfloat \<Rightarrow> int \<Rightarrow> pyfloat) \<Rightarrow> closure \<Rightarrow> nat \<Rightarrow> nat \<Rightarrow> nat \<Rightarrow> addr \<Rightarrow> store \<Rightarrow>
   exn + store" where
  "vary_seed fadd c ix iy iz pc st =
     (let xdim = (if c_vary_seeds_x c then length (c_xs c) else 1);
          ydim = (if c_vary_seeds_y c then length (c_ys c) else 1)
      in case (if c_vary_seeds_x c then seed_add fadd st pc (int ix) else Inr st) of
           Inl e \<Rightarrow> Inl e
         | Inr st1 \<Rightarrow>
             (case (if c_vary_seeds_y c then seed_add fadd st1 pc (int (iy * xdim))
                    else Inr st1) of
                Inl e \<Rightarrow> Inl e
              | Inr st2 \<Rightarrow>
                  (if c_vary_seeds_z c then seed_add fadd st2 pc (int (iz * xdim * ydim))
                   else Inr st2)))"

text \<open>\<^verbatim>\<open>Processed(p, [], p.seed, "")\<close>: the list of images is the empty list given.\<close>

definition empty_result :: "('img, 'r) renderer \<Rightarrow> closure \<Rightarrow> 'r world \<Rightarrow> 'img cell_processed" where
  "empty_result env c w = (Processed_empty env (c_p c) w)\<lparr>images := []\<rparr>"

text \<open>
  The block \<^verbatim>\<open>try: ... except Exception\<close>: the renderer is called; with individual labels
  and a result with images, the first image is replaced by its labelled copy, which is
  saved first when grids are saved (with the first infotext, prompt and seed of the
  result). Whatever is raised inside the block is caught and the result is
  \<^verbatim>\<open>Processed(p, [], p.seed, "")\<close>.
\<close>

definition render ::
  "('img, 'r) renderer \<Rightarrow> closure \<Rightarrow> pyval \<Rightarrow> pyval \<Rightarrow> pyval \<Rightarrow> addr \<Rightarrow> 'r world \<Rightarrow>
   'img cell_processed \<times> 'r world" where
  "render env c x y z pc w =
     (case process_images env pc w of
        (Inl e, w1) \<Rightarrow> (empty_result env c w1, w1)
      | (Inr res, w1) \<Rightarrow>
          (if c_draw_individual_labels c \<and> images res \<noteq> [] then
             (case label_image env (hd (images res)) x y z of
                Inl e \<Rightarrow> (empty_result env c w1, w1)
              | Inr labeled_image \<Rightarrow>
                  (if c_grid_save c then
                     (if infotexts res = [] \<or> all_prompts res = [] \<or> all_seeds res = []
                      then (empty_result env c w1, w1)
                      else (case save_image env labeled_image w1 of
                              (Some e, w2) \<Rightarrow> (empty_result env c w2, w2)
                            | (None, w2) \<Rightarrow>
                                (res\<lparr>images := labeled_image # tl (images res)\<rparr>, w2)))
                   else (res\<lparr>images := labeled_image # tl (images res)\<rparr>, w1)))
           else (res, w1)))"

text \<open>\<^verbatim>\<open>", ".join(...)\<close>.\<close>

fun join_comma :: "string list \<Rightarrow> string" where
  "join_comma [] = []"
| "join_comma [a] = a"
| "join_comma (a # b # r) = a @ '', '' @ join_comma (b # r)"

text \<open>\<^verbatim>\<open>pc.extra_generation_params = copy(pc.extra_generation_params)\<close>.\<close>

definition copy_extra :: "addr \<Rightarrow> store \<Rightarrow> exn + store" where
  "copy_extra pc st =
     (case getattr st pc ''extra_generation_params'' of
        Inl e \<Rightarrow> Inl e
      | Inr (VRef a) \<Rightarrow>
          (case py_copy st a of
             Inl e \<Rightarrow> Inl e
           | Inr (b, st1) \<Rightarrow> setattr st1 pc ''extra_generation_params'' (VRef b))
      | Inr v \<Rightarrow> Inr st)"

text \<open>
  The entries for one axis: its type and values unless it is "Nothing", and its fixed
  values when it is a seed axis and seeds are fixed. \<open>ax\<close> is the letter of the axis.
\<close>

definition axis_params ::
  "(pyval \<Rightarrow> string) \<Rightarrow> bool \<Rightarrow> string \<Rightarrow> axis_option \<Rightarrow> string \<Rightarrow> pyval list \<Rightarrow> addr \<Rightarrow>
   store \<Rightarrow> exn + store" where
  "axis_params str no_fixed ax opt vals_text vals pc st =
     (if label opt \<noteq> ''Nothing'' then
        (case dict_setitem st pc ''extra_generation_params'' (ax @ '' Type'')
                (VStr (label opt)) of
           Inl e \<Rightarrow> Inl e
         | Inr st1 \<Rightarrow>
             (case dict_setitem st1 pc ''extra_generation_params'' (ax @ '' Values'')
                     (VStr vals_text) of
                Inl e \<Rightarrow> Inl e
              | Inr st2 \<Rightarrow>
                  (if (label opt = ''Seed'' \<or> label opt = ''Var. seed'') \<and> \<not> no_fixed
                   then dict_setitem st2 pc ''extra_generation_params''
                          (''Fixed '' @ ax @ '' Values'')
                          (VStr (join_comma (map str vals)))
                   else Inr st2)))
      else Inr st)"

text \<open>
  The infotext of slice \<open>iz\<close>, made once, at the cell \<open>ix = 0\<close>, \<open>iy = 0\<close> of the slice, from
  the clone of that cell.
\<close>

definition note_sub_grid ::
  "('img, 'r) renderer \<Rightarrow> closure \<Rightarrow> addr \<Rightarrow> nat \<Rightarrow> nat \<Rightarrow> nat \<Rightarrow> 'r world \<Rightarrow> exn + 'r world" where
  "note_sub_grid env c pc ix iy iz w =
     (case list_get (grid_infotext w) (1 + iz) of
        Inl e \<Rightarrow> Inl e
      | Inr cur \<Rightarrow>
          (if cur = None \<and> ix = 0 \<and> iy = 0 then
             (case copy_extra pc (heap w) of
                Inl e \<Rightarrow> Inl e
              | Inr st1 \<Rightarrow>
                  (case dict_setitem st1 pc ''extra_generation_params'' ''Script''
                          (VStr (c_title c)) of
                     Inl e \<Rightarrow> Inl e
                   | Inr st2 \<Rightarrow>
                       (case axis_params (str_of env) (c_no_fixed_seeds c) ''X'' (c_x_opt c)
                               (c_x_values c) (c_xs c) pc st2 of
                          Inl e \<Rightarrow> Inl e
                        | Inr st3 \<Rightarrow>
                            (case axis_params (str_of env) (c_no_fixed_seeds c) ''Y''
                                    (c_y_opt c) (c_y_values c) (c_ys c) pc st3 of
                               Inl e \<Rightarrow> Inl e
                             | Inr st4 \<Rightarrow>
                                 (case create_infotext env pc (w\<lparr>heap := st4\<rparr>) of
                                    Inl e \<Rightarrow> Inl e
                                  | Inr text \<Rightarrow>
                                      Inr (w\<lparr>heap := st4,
                                             grid_infotext :=
                                               (grid_infotext w)[1 + iz := Some text]\<rparr>))))))
           else Inr w))"

text \<open>The infotext of the whole grid, made once, at the cell \<open>(0, 0, 0)\<close>.\<close>

definition note_top_grid ::
  "('img, 'r) renderer \<Rightarrow> closure \<Rightarrow> addr \<Rightarrow> nat \<Rightarrow> nat \<Rightarrow> nat \<Rightarrow> 'r world \<Rightarrow> exn + 'r world" where
  "note_top_grid env c pc ix iy iz w =
     (case list_get (grid_infotext w) 0 of
        Inl e \<Rightarrow> Inl e
      | Inr cur \<Rightarrow>
          (if cur = None \<and> ix = 0 \<and> iy = 0 \<and> iz = 0 then
             (case copy_extra pc (heap w) of
                Inl e \<Rightarrow> Inl e
              | Inr st1 \<Rightarrow>
                  (case axis_params (str_of env) (c_no_fixed_seeds c) ''Z'' (c_z_opt c)
                          (c_z_values c) (c_zs c) pc st1 of
                     Inl e \<Rightarrow> Inl e
                   | Inr st2 \<Rightarrow>
                       (case create_infotext env pc (w\<lparr>heap := st2\<rparr>) of
                          Inl e \<Rightarrow> Inl e
                        | Inr text \<Rightarrow>
                            Inr (w\<lparr>heap := st2,
                                   grid_infotext := (grid_infotext w)[0 := Some text]\<rparr>))))
           else Inr w))"

text \<open>
  \<^verbatim>\<open>cell(x, y, z, ix, iy, iz)\<close>. Outside the \<^verbatim>\<open>try\<close> block an exception leaves the function;
  the state it leaves behind is then the state before the statement that raised.
\<close>

definition cell :: "('img, 'r) renderer \<Rightarrow> closure \<Rightarrow> ('img, 'r world) cell_fun" where
  "cell env c x y z ix iy iz w =
     (if interrupted w \<or> stopping_generation w then (Inr (empty_result env c w), w)
      else
        (case clone_request (c_p c) (heap w) of
           Inl e \<Rightarrow> (Inl e, w)
         | Inr (pc, st1) \<Rightarrow>
             (case apply_axes c pc x y z st1 of
                Inl e \<Rightarrow> (Inl e, w\<lparr>heap := st1\<rparr>)
              | Inr st2 \<Rightarrow>
                  (case vary_seed (float_add env) c ix iy iz pc st2 of
                     Inl e \<Rightarrow> (Inl e, w\<lparr>heap := st2\<rparr>)
                   | Inr st3 \<Rightarrow>
                       (case render env c x y z pc (w\<lparr>heap := st3\<rparr>) of
                          (res, w1) \<Rightarrow>
                            (case note_sub_grid env c pc ix iy iz w1 of
                               Inl e \<Rightarrow> (Inl e, w1)
                             | Inr w2 \<Rightarrow>
                                 (case note_top_grid env c pc ix iy iz w2 of
                                    Inl e \<Rightarrow> (Inl e, w2)
                                  | Inr w3 \<Rightarrow> (Inr res, w3))))))))"

subsection \<open>A library of symbolic images\<close>

text \<open>
  For running the definitions on concrete sweeps: an image is its mode, its size and a
  description of how it was made. A grid is as wide as its columns and as high as its
  rows of the largest cell.
\<close>

datatype image = Image (im_mode: string) (im_size: "nat \<times> nat") (im_content: content)
  and content = Pixels nat | Solid | GridOf "image list" nat
  | Annotated image "pyval option list" "pyval option list" nat
  | Labelled image pyval pyval pyval

definition sym_lib :: "image image_lib" where
  "sym_lib =
     \<lparr>img_mode = im_mode, img_size = im_size,
      Image_new = (\<lambda>m sz. Image m sz Solid),
      image_grid = (\<lambda>imgs rows.
        Image ''RGB''
          ((if rows = 0 then 0 else (length imgs + rows - 1) div rows) *
             fold max (map (\<lambda>i. fst (im_size i)) imgs) 0,
           rows * fold max (map (\<lambda>i. snd (im_size i)) imgs) 0)
          (GridOf imgs rows)),
      draw_grid_annotations = (\<lambda>im w h hor ver margin.
        Image (im_mode im) (im_size im) (Annotated im hor ver margin)),
      draw_label_on_image = (\<lambda>im x y z. Image (im_mode im) (im_size im) (Labelled im x y z))\<rparr>"

text \<open>
  Results for running the definitions on concrete sweeps: a result with one image of 64
  by 64 pixels, the result without image of a request of 512 by 512 pixels, and the
  object \<^verbatim>\<open>Processed(p, [])\<close> of that request.
\<close>

definition one_image :: "nat \<Rightarrow> image cell_processed" where
  "one_image k = \<lparr>images = [Image ''RGB'' (64, 64) (Pixels k)], all_prompts = [''a cat''],
     all_seeds = [int k], infotexts = [''a cat, Seed''], prompt = ''a cat'', seed = int k,
     width = 64, height = 64, index_of_first_image = 0\<rparr>"

definition no_image :: "image cell_processed" where
  "no_image = \<lparr>images = [], all_prompts = [''a cat''], all_seeds = [0], infotexts = [],
     prompt = ''a cat'', seed = 0, width = 512, height = 512, index_of_first_image = 0\<rparr>"

definition no_grid :: "image grid_processed" where
  "no_grid = \<lparr>images = [], all_prompts = [Some ''a cat''], all_seeds = [Some 0],
     infotexts = [], prompt = ''a cat'', seed = 0, width = 512, height = 512,
     index_of_first_image = 0\<rparr>"

text \<open>
  A renderer for running the loops on concrete sweeps: it returns the same result for
  every cell and records the indices of the cells it is asked for, in order.
\<close>

definition log_cell :: "'img cell_processed \<Rightarrow> ('img, (nat \<times> nat \<times> nat) list) cell_fun" where
  "log_cell r x y z ix iy iz w = (Inr r, w @ [(ix, iy, iz)])"

text \<open>A float library in which every call raises, for sweeps without float values.\<close>

definition no_float :: float_lib where
  "no_float = \<lparr>linspace_int = (\<lambda>a b n. Inl TypeError),
     expand_float_token = (\<lambda>s. Inl TypeError), to_float = (\<lambda>v. Inl TypeError)\<rparr>"

subsection \<open>Decimal notation\<close>

text \<open>
  \<^verbatim>\<open>str(n)\<close> for an integer, used to write range tokens: \<open>show_int\<close> puts a sign only on a
  negative number, \<open>show_step\<close> always puts one, as the step of a range token needs.
\<close>

function dec :: "nat \<Rightarrow> string" where
  "dec n = (if n < 10 then [char_of (48 + n)] else dec (n div 10) @ [char_of (48 + n mod 10)])"
  by pat_completeness auto
termination
  by (relation "measure id") auto

declare dec.simps [simp del]

definition show_int :: "int \<Rightarrow> string" where
  "show_int i = (if i < 0 then CHR ''-'' # dec (nat (- i)) else dec (nat i))"

definition show_step :: "int \<Rightarrow> string" where
  "show_step i = (if i < 0 then CHR ''-'' # dec (nat (- i)) else CHR ''+'' # dec (nat i))"

text \<open>The number of decimal digits of an integer.\<close>

definition num_digits :: "int \<Rightarrow> nat" where
  "num_digits i = length (dec (nat \<bar>i\<bar>))"

text \<open>The range token \<^verbatim>\<open>a-b\<close> or \<^verbatim>\<open>a-b(s)\<close> written out.\<close>

definition range_token :: "int \<Rightarrow> int \<Rightarrow> int option \<Rightarrow> string" where
  "range_token a b s =
     show_int a @ ''-'' @ show_int b @
       (case s of None \<Rightarrow> [] | Some k \<Rightarrow> ''('' @ show_step k @ '')'')"

subsection \<open>Auxiliary predicates on token text\<close>

text \<open>
  \<open>num_text\<close>: an optional sign followed by digits. \<open>plain\<close>: a character the csv
  reader treats as an ordinary one. \<open>tok_char\<close>: a character of a range token.
\<close>

definition num_text :: "string \<Rightarrow> bool" where
  "num_text t = (\<exists>sg ds. t = sg @ ds \<and> (sg = [] \<or> sg = ''+'' \<or> sg = ''-'') \<and> ds \<noteq> [] \<and> list_all is_digit ds)"

definition plain :: "char \<Rightarrow> bool" where
  "plain c = (c \<noteq> CHR '','' \<and> c \<noteq> CHR 0x22 \<and> c \<noteq> CHR 0x0A \<and> c \<noteq> CHR 0x0D)"

definition tok_char :: "char \<Rightarrow> bool" where
  "tok_char c = (is_digit c \<or> c = CHR ''-'' \<or> c = CHR ''+'' \<or> c = CHR ''('' \<or> c = CHR '')'')"

subsection \<open>Auxiliary notions for the sweep\<close>

text \<open>
  A renderer whose result depends on the cell only: it reads and changes nothing outside
  and does not raise.
\<close>

definition pure_cell ::
  "(pyval \<Rightarrow> pyval \<Rightarrow> pyval \<Rightarrow> nat \<Rightarrow> nat \<Rightarrow> nat \<Rightarrow> 'img cell_processed) \<Rightarrow>
   ('img, 'w) cell_fun" where
  "pure_cell r x y z ix iy iz w = (Inr (r x y z ix iy iz), w)"

text \<open>
  The cells in the order in which the nests of \<open>sweep_cells\<close> reach them, for the lists the
  three loops enumerate.
\<close>

definition cells_order ::
  "axis \<Rightarrow> axis \<Rightarrow> 'a list \<Rightarrow> 'b list \<Rightarrow> 'c list \<Rightarrow> ('a \<times> 'b \<times> 'c) list" where
  "cells_order f s ex ey ez =
     (case f of
        AX \<Rightarrow> if s = AY then List.product ex (List.product ey ez)
              else map (\<lambda>(a, c, b). (a, b, c)) (List.product ex (List.product ez ey))
      | AY \<Rightarrow> if s = AX then map (\<lambda>(b, a, c). (a, b, c)) (List.product ey (List.product ex ez))
              else map (\<lambda>(b, c, a). (a, b, c)) (List.product ey (List.product ez ex))
      | AZ \<Rightarrow> if s = AX then map (\<lambda>(c, a, b). (a, b, c)) (List.product ez (List.product ex ey))
              else map (\<lambda>(c, b, a). (a, b, c)) (List.product ez (List.product ey ex)))"

text \<open>
  A cell as the loops hold it, \<open>((ix, x), (iy, y), (iz, z))\<close>; its flat index; the result a
  renderer \<open>r\<close> gives for it.
\<close>

type_synonym cellpos = "(nat \<times> pyval) \<times> (nat \<times> pyval) \<times> (nat \<times> pyval)"





text \<open>
  What \<open>store_cell\<close> writes otherwise: the blank image for a result without images, the
  image kept for a result with images, and the container after the four assignments.
\<close>

definition placeholder :: "'img image_lib \<Rightarrow> 'img option \<Rightarrow> nat \<Rightarrow> nat \<Rightarrow> 'img" where
  "placeholder lib first w h =
     Image_new lib (case first of None \<Rightarrow> ''P'' | Some i0 \<Rightarrow> img_mode lib i0)
       (case first of None \<Rightarrow> (w, h) | Some i0 \<Rightarrow> img_size lib i0)"

definition stored_image ::
  "'img image_lib \<Rightarrow> bool \<Rightarrow> pyval list \<Rightarrow> pyval list \<Rightarrow> pyval list \<Rightarrow> cellpos \<Rightarrow> 'img \<Rightarrow> 'img" where
  "stored_image lib dil xl yl zl c im =
     (if dil then draw_label_on_image lib im (xl ! fst (fst c)) (yl ! fst (fst (snd c)))
                    (zl ! fst (snd (snd c)))
      else im)"

definition put ::
  "'img image_lib \<Rightarrow> bool \<Rightarrow> pyval list \<Rightarrow> pyval list \<Rightarrow> pyval list \<Rightarrow> cellpos \<Rightarrow> nat \<Rightarrow>
   'img cell_processed \<Rightarrow> 'img grid_processed \<Rightarrow> 'img grid_processed" where
  "put lib dil xl yl zl c idx processed pr =
     (case images processed of
        im # _ \<Rightarrow>
          pr\<lparr>images := (images pr)[idx := Some (stored_image lib dil xl yl zl c im)],
             all_prompts := (all_prompts pr)[idx := Some (prompt processed)],
             all_seeds := (all_seeds pr)[idx := Some (seed processed)],
             infotexts := (infotexts pr)[idx := Some (hd (infotexts processed))]\<rparr>
      | [] \<Rightarrow>
          pr\<lparr>images := (images pr)[idx :=
                 Some (placeholder lib (images pr ! 0) (width pr) (height pr))]\<rparr>)"

text \<open>The four lists of a container all have length \<open>n\<close>.\<close>

definition sized :: "nat \<Rightarrow> 'img grid_processed \<Rightarrow> bool" where
  "sized n pr = (length (images pr) = n \<and> length (all_prompts pr) = n \<and>
                 length (all_seeds pr) = n \<and> length (infotexts pr) = n)"

text \<open>A result whose four lists have equal length.\<close>

definition aligned :: "('i, 's, 'n) processed \<Rightarrow> bool" where
  "aligned r = (length (infotexts r) = length (images r) \<and>
                length (all_prompts r) = length (images r) \<and>
                length (all_seeds r) = length (images r))"


section \<open>Properties\<close>

subsection \<open>Iteration planner\<close>

text \<open>
  The pair of axes the planner returns: the axis whose cost is strictly the highest is
  named first and the costlier of the remaining two second; when no axis has strictly
  the highest cost, the pair is Z and Y.
\<close>

theorem plan_axes_order:
  fixes cx cy cz :: "'c::linorder"
  shows "(cx > cy \<and> cx > cz \<longrightarrow>
            fst (plan_axes cx cy cz) = AX \<and>
            (cy > cz \<longrightarrow> snd (plan_axes cx cy cz) = AY) \<and>
            (cz > cy \<longrightarrow> snd (plan_axes cx cy cz) = AZ)) \<and>
         (cy > cx \<and> cy > cz \<longrightarrow>
            fst (plan_axes cx cy cz) = AY \<and>
            (cx > cz \<longrightarrow> snd (plan_axes cx cy cz) = AX) \<and>
            (cz > cx \<longrightarrow> snd (plan_axes cx cy cz) = AZ)) \<and>
         (cz > cx \<and> cz > cy \<longrightarrow>
            fst (plan_axes cx cy cz) = AZ \<and>
            (cx > cy \<longrightarrow> snd (plan_axes cx cy cz) = AX) \<and>
            (cy > cx \<longrightarrow> snd (plan_axes cx cy cz) = AY)) \<and>
         (\<not> (cx > cy \<and> cx > cz) \<and> \<not> (cy > cx \<and> cy > cz) \<and> \<not> (cz > cx \<and> cz > cy) \<longrightarrow>
            plan_axes cx cy cz = (AZ, AY))"
  by (auto simp: plan_axes_def)

theorem plan_axes_order_witness:
  "plan_axes (10::nat) 7 0 = (AX, AY) \<and> plan_axes (0::nat) 10 7 = (AY, AZ) \<and>
   plan_axes (5::nat) 0 10 = (AZ, AX) \<and> plan_axes (10::nat) 10 0 = (AZ, AY)"
  using plan_axes_order [where cx = "10::nat" and cy = 7 and cz = 0]
    plan_axes_order [where cx = "0::nat" and cy = 10 and cz = 7]
    plan_axes_order [where cx = "5::nat" and cy = 0 and cz = 10]
    plan_axes_order [where cx = "10::nat" and cy = 10 and cz = 0]
  by (simp add: prod_eq_iff)

lemma enumerate_two: "enumerate 0 [a, b] = [(0, a), (1, b)]"
  by (simp add: enumerate_eq_zip upt_rec)

lemma enumerate_one: "enumerate 0 [a] = [(0, a)]"
  by (simp add: enumerate_eq_zip)

text \<open>
  C5. The claim is that the axis of strictly highest cost is processed outermost. Take
  the costs 1, 0, 0 (a checkpoint on X), two values on X and on Y, one on Z, and a
  renderer that records the indices \<open>(ix, iy, iz)\<close> of the cells in the order it is asked
  for them. The planner names X first and Z second. The sweep without grid does not
  read the plan: its loops are Z, Y, X, so X is innermost and changes at every cell. The
  loops of \<^verbatim>\<open>draw_xyz_grid\<close>, given the same plan, hold X outermost.
\<close>

theorem skip_grid_ignores_plan:
  "plan_axes (1::rat) 0 0 = (AX, AZ) \<and>
   snd (skip_grid_cells (\<lambda>w. False) (log_cell r) [x0, x1] [y0, y1] [z0] p0 []) =
     [(0, 0, 0), (1, 0, 0), (0, 1, 0), (1, 1, 0)] \<and>
   snd (sweep_cells (\<lambda>ix iy iz s w. (Inr s, w @ [(fst ix, fst iy, fst iz)]))
          AX AZ [x0, x1] [y0, y1] [z0] () []) =
     [(0, 0, 0), (0, 1, 0), (1, 0, 0), (1, 1, 0)]"
proof -
  have 1: "plan_axes (1::rat) 0 0 = (AX, AZ)" by (simp add: plan_axes_def)
  have 2: "snd (skip_grid_cells (\<lambda>w. False) (log_cell r) [x0, x1] [y0, y1] [z0] p0 []) =
     [(0, 0, 0), (1, 0, 0), (0, 1, 0), (1, 1, 0)]"
    by (simp add: skip_grid_cells_def skip_grid_cell_def log_cell_def enumerate_two enumerate_one)
  have 3: "snd (sweep_cells (\<lambda>ix iy iz s w. (Inr s, w @ [(fst ix, fst iy, fst iz)]))
          AX AZ [x0, x1] [y0, y1] [z0] () []) =
     [(0, 0, 0), (0, 1, 0), (1, 0, 0), (1, 1, 0)]"
    by (simp add: sweep_cells_def enumerate_two enumerate_one)
  show ?thesis using 1 2 3 by blast
qed

subsection \<open>Axis value parser\<close>

lemma is_digit_char_of: "d < 10 \<Longrightarrow> is_digit (char_of (48 + (d::nat)))"
  by (simp add: is_digit_def)

lemma digit_val_char_of: "d < 10 \<Longrightarrow> digit_val (char_of (48 + (d::nat))) = d"
  by (simp add: digit_val_def)

lemma is_digit_not_space: "is_digit c \<Longrightarrow> \<not> is_space c"
  by (auto simp: is_digit_def is_space_def Let_def)

lemma is_digit_not_sign: "is_digit c \<Longrightarrow> \<not> is_sign c"
  by (auto simp: is_digit_def is_sign_def Let_def)

lemma is_sign_not_space: "is_sign c \<Longrightarrow> \<not> is_space c"
  by (auto simp: is_sign_def is_space_def Let_def)

lemma is_digit_neq: "is_digit c \<Longrightarrow> c \<noteq> CHR ''-'' \<and> c \<noteq> CHR ''+'' \<and> c \<noteq> CHR ''('' \<and> c \<noteq> CHR '')'' \<and> c \<noteq> CHR ''_''"
  by (auto simp: is_digit_def Let_def)

lemma dec_digits: "list_all is_digit (dec n)"
proof (induction n rule: dec.induct)
  case (1 n)
  show ?case
  proof (cases "n < 10")
    case True
    then show ?thesis by (subst dec.simps) (simp add: is_digit_char_of)
  next
    case False
    then show ?thesis using 1 by (subst dec.simps) (simp add: is_digit_char_of)
  qed
qed

lemma dec_nonempty: "dec n \<noteq> []"
  by (subst dec.simps) simp

lemma digits_val_snoc: "digits_val (ds @ [c]) = 10 * digits_val ds + digit_val c"
  by (simp add: digits_val_def)

lemma digits_val_dec: "digits_val (dec n) = n"
proof (induction n rule: dec.induct)
  case (1 n)
  show ?case
  proof (cases "n < 10")
    case True
    then show ?thesis by (subst dec.simps) (simp add: digits_val_def digit_val_char_of)
  next
    case False
    then show ?thesis using 1
      by (subst dec.simps) (simp add: digits_val_snoc digit_val_char_of)
  qed
qed

lemma underscores_ok_digits: "ds \<noteq> [] \<Longrightarrow> list_all is_digit ds \<Longrightarrow> underscores_ok ds"
  by (induction ds rule: underscores_ok.induct) auto

lemma int_body_digits:
  "ds \<noteq> [] \<Longrightarrow> list_all is_digit ds \<Longrightarrow> length ds \<le> max_str_digits \<Longrightarrow>
   int_body ds = Some (digits_val ds)"
  by (cases ds) (auto simp: int_body_def underscores_ok_digits list_all_iff filter_id_conv)

lemma is_digit_not_int_space: "is_digit c \<Longrightarrow> \<not> is_int_space c"
  by (auto simp: is_digit_def is_int_space_def Let_def)

lemma int_strip_noop:
  "s \<noteq> [] \<Longrightarrow> \<not> is_int_space (hd s) \<Longrightarrow> \<not> is_int_space (last s) \<Longrightarrow> int_strip s = s"
proof -
  assume a: "s \<noteq> []" "\<not> is_int_space (hd s)" "\<not> is_int_space (last s)"
  then have 1: "dropWhile is_int_space s = s" by (cases s) auto
  have "rev s \<noteq> []" "\<not> is_int_space (hd (rev s))" using a by (auto simp: hd_rev)
  then have 2: "dropWhile is_int_space (rev s) = rev s" by (cases "rev s") auto
  show ?thesis by (simp add: int_strip_def 1 2)
qed

lemma strip_noop: "s \<noteq> [] \<Longrightarrow> \<not> is_space (hd s) \<Longrightarrow> \<not> is_space (last s) \<Longrightarrow> py_strip s = s"
proof -
  assume a: "s \<noteq> []" "\<not> is_space (hd s)" "\<not> is_space (last s)"
  then have 1: "dropWhile is_space s = s" by (cases s) auto
  have "rev s \<noteq> []" "\<not> is_space (hd (rev s))" using a by (auto simp: hd_rev)
  then have 2: "dropWhile is_space (rev s) = rev s" by (cases "rev s") auto
  show ?thesis by (simp add: py_strip_def 1 2)
qed

lemma py_int_digits:
  assumes "ds \<noteq> []" "list_all is_digit ds" "length ds \<le> max_str_digits"
  shows "py_int ds = Some (int (digits_val ds))"
    and "py_int (CHR ''-'' # ds) = Some (- int (digits_val ds))"
    and "py_int (CHR ''+'' # ds) = Some (int (digits_val ds))"
proof -
  have h: "is_digit (hd ds)" "is_digit (last ds)" using assms by (auto simp: list_all_iff)
  have s0: "int_strip ds = ds"
    using assms h by (intro int_strip_noop) (auto dest: is_digit_not_int_space)
  have s1: "int_strip (c # ds) = c # ds" if "\<not> is_int_space c" for c
    using assms h that by (intro int_strip_noop) (auto dest: is_digit_not_int_space)
  obtain c cs where ds: "ds = c # cs" using assms by (cases ds) auto
  have c: "c \<noteq> CHR ''-''" "c \<noteq> CHR ''+''" using h ds is_digit_neq by auto
  show "py_int ds = Some (int (digits_val ds))"
    using int_body_digits[OF assms] c by (simp add: py_int_def s0) (simp add: ds c)
  have "\<not> is_int_space CHR ''-''" "\<not> is_int_space CHR ''+''"
    by (simp_all add: is_int_space_def)
  then show "py_int (CHR ''-'' # ds) = Some (- int (digits_val ds))"
    "py_int (CHR ''+'' # ds) = Some (int (digits_val ds))"
    using int_body_digits[OF assms] by (simp_all add: py_int_def s1)
qed

lemma py_int_show_int: "num_digits i \<le> max_str_digits \<Longrightarrow> py_int (show_int i) = Some i"
  using py_int_digits[OF dec_nonempty dec_digits, of "nat \<bar>i\<bar>"]
  by (cases "i < 0") (auto simp: show_int_def digits_val_dec num_digits_def abs_if)

lemma py_int_show_step: "num_digits i \<le> max_str_digits \<Longrightarrow> py_int (show_step i) = Some i"
  using py_int_digits[OF dec_nonempty dec_digits, of "nat \<bar>i\<bar>"]
  by (cases "i < 0") (auto simp: show_step_def digits_val_dec num_digits_def abs_if)

lemma length_show_int: "length (show_int i) \<le> Suc (num_digits i)"
  by (auto simp: show_int_def num_digits_def abs_if)

lemma length_show_step: "length (show_step i) = Suc (num_digits i)"
  by (auto simp: show_step_def num_digits_def abs_if)


lemma num_text_show_int: "num_text (show_int i)"
  unfolding num_text_def show_int_def
  by (cases "i < 0") (auto intro: exI[of _ "''-''"] exI[of _ "[]"] simp: dec_nonempty dec_digits)

lemma match_digits_app:
  assumes "ds \<noteq> []" "list_all is_digit ds" "r = [] \<or> \<not> is_digit (hd r)"
  shows "match_digits (ds @ r) = Some (ds, r)"
proof -
  have r: "takeWhile is_digit r = []" "dropWhile is_digit r = r" using assms(3) by (cases r; auto)+
  have "takeWhile is_digit (ds @ r) = ds" "dropWhile is_digit (ds @ r) = r"
    using assms(2) r by (simp_all add: list_all_iff takeWhile_append2 dropWhile_append2)
  then show ?thesis using assms(1) by (simp add: match_digits_def)
qed

lemma match_number_app:
  assumes "num_text t" "r = [] \<or> \<not> is_digit (hd r)"
  shows "match_number (t @ r) = Some (t, r)"
proof -
  obtain sg ds where t: "t = sg @ ds" and sg: "sg = [] \<or> sg = ''+'' \<or> sg = ''-''"
    and ds: "ds \<noteq> []" "list_all is_digit ds"
    using assms(1) by (auto simp: num_text_def)
  obtain c cs where dsc: "ds = c # cs" and c: "is_digit c" using ds by (cases ds) auto
  have md: "match_digits (ds @ r) = Some (ds, r)" by (rule match_digits_app[OF ds assms(2)])
  have ns: "\<not> is_space c" "\<not> is_sign c" using c is_digit_not_space is_digit_not_sign by auto
  from sg show ?thesis
  proof (elim disjE)
    assume "sg = []"
    then show ?thesis using md ns by (simp add: t match_number_def dsc)
  next
    assume "sg = ''+''"
    then show ?thesis using md ns by (simp add: t match_number_def dsc is_sign_def)
  next
    assume "sg = ''-''"
    then show ?thesis using md ns by (simp add: t match_number_def dsc is_sign_def)
  qed
qed

lemma num_text_hd: "num_text t \<Longrightarrow> t \<noteq> [] \<and> \<not> is_space (hd t)"
  by (auto simp: num_text_def is_space_def list_all_iff dest!: is_digit_not_space hd_in_set)

lemma dropWhile_space_num: "num_text t \<Longrightarrow> dropWhile is_space (t @ r) = t @ r"
  using num_text_hd[of t] by (cases t) auto

lemma match_bounds_app:
  assumes "num_text ta" "num_text tb" "r = [] \<or> \<not> is_digit (hd r)"
  shows "match_bounds (ta @ ''-'' @ tb @ r) = Some (ta, tb, r)"
proof -
  have 1: "match_number (ta @ (''-'' @ tb @ r)) = Some (ta, ''-'' @ tb @ r)"
    by (rule match_number_app[OF assms(1)]) (simp add: is_digit_def)
  have 2: "match_number (tb @ r) = Some (tb, r)" by (rule match_number_app[OF assms(2,3)])
  have 3: "\<not> is_space CHR ''-''" by (simp add: is_space_def)
  show ?thesis
    unfolding match_bounds_def dropWhile_space_num[OF assms(1)] 1
    using 2 3 dropWhile_space_num[OF assms(2), of r] by simp
qed

lemma re_range_no_step:
  assumes "num_text ta" "num_text tb"
  shows "re_range_fullmatch (ta @ ''-'' @ tb) = Some (ta, tb, None)"
  using match_bounds_app[OF assms, of "[]"] by (simp add: re_range_fullmatch_def)

lemma match_step_app:
  assumes "is_sign c" "ds \<noteq> []" "list_all is_digit ds"
  shows "match_step (c # ds @ '')'') = Some (c # ds)"
proof -
  have "match_digits (ds @ '')'') = Some (ds, '')'')"
    by (rule match_digits_app[OF assms(2,3)]) (simp add: is_digit_def)
  moreover have "\<not> is_space CHR '')''" by (simp add: is_space_def)
  ultimately show ?thesis using assms(1) by (simp add: match_step_def)
qed

lemma re_range_step:
  assumes "num_text ta" "num_text tb"
  shows "re_range_fullmatch (ta @ ''-'' @ tb @ ''('' @ show_step s @ '')'') = Some (ta, tb, Some (show_step s))"
proof -
  have 1: "match_bounds (ta @ ''-'' @ tb @ (''('' @ show_step s @ '')'')) = Some (ta, tb, ''('' @ show_step s @ '')'')"
    by (rule match_bounds_app[OF assms]) (simp add: is_digit_def)
  have 2: "\<not> is_space CHR ''(''" by (simp add: is_space_def)
  have 3: "match_step (show_step s @ '')'') = Some (show_step s)"
    using match_step_app[OF _ dec_nonempty dec_digits]
    by (simp add: show_step_def is_sign_def)
  show ?thesis using 1 2 3 by (simp add: re_range_fullmatch_def)
qed

lemma expand_int_token_range:
  assumes "num_digits a \<le> max_str_digits" "num_digits b \<le> max_str_digits"
    "num_digits s \<le> max_str_digits"
  shows "expand_int_token np (show_int a @ ''-'' @ show_int b @ ''('' @ show_step s @ '')'') =
     (case py_range a (b + 1) s of Inl e \<Rightarrow> Inl e | Inr l \<Rightarrow> Inr (map VInt l))"
  unfolding expand_int_token_def re_range_step[OF num_text_show_int num_text_show_int]
  using assms by (simp add: py_int_show_int py_int_show_step)

lemma expand_int_token_range1:
  assumes "num_digits a \<le> max_str_digits" "num_digits b \<le> max_str_digits"
  shows "expand_int_token np (show_int a @ ''-'' @ show_int b) =
     (case py_range a (b + 1) 1 of Inl e \<Rightarrow> Inl e | Inr l \<Rightarrow> Inr (map VInt l))"
  unfolding expand_int_token_def re_range_no_step[OF num_text_show_int num_text_show_int]
  using assms by (simp add: py_int_show_int)


lemma io_lines_plain:
  "list_all plain t \<Longrightarrow> acc @ t \<noteq> [] \<Longrightarrow> io_lines acc t = [acc @ t]"
  by (induction t arbitrary: acc) (auto simp: plain_def)

lemma parse_line_in_field:
  "list_all plain cs \<Longrightarrow> state r = IN_FIELD \<Longrightarrow> length (field r) + length cs \<le> field_limit \<Longrightarrow>
   parse_line r cs = Inr (r\<lparr>field := field r @ cs\<rparr>)"
proof (induction cs arbitrary: r)
  case Nil
  then show ?case by simp
next
  case (Cons c cs)
  have 1: "parse_process_char r (Some c) = Inr (r\<lparr>field := field r @ [c]\<rparr>)"
    using Cons.prems by (simp add: parse_process_char_def parse_add_char_def plain_def is_newline_def)
  have "parse_line (r\<lparr>field := field r @ [c]\<rparr>) cs
        = Inr ((r\<lparr>field := field r @ [c]\<rparr>)\<lparr>field := field (r\<lparr>field := field r @ [c]\<rparr>) @ cs\<rparr>)"
    using Cons.prems by (intro Cons.IH) auto
  then show ?case using Cons.prems 1 by (simp add: plain_def)
qed

lemma csv_single_token:
  assumes "t \<noteq> []" "list_all plain t" "\<not> is_space (hd t)" "\<not> is_space (last t)"
    "length t \<le> field_limit"
  shows "csv_string_to_list_strip t = Inr [t]"
proof -
  obtain c cs where t: "t = c # cs" using assms(1) by (cases t) auto
  have c: "plain c" "c \<noteq> CHR '' ''" using assms(2,3) t by (auto simp: is_space_def)
  have fl: "0 < field_limit" by (simp add: field_limit_def)
  have 1: "parse_process_char parse_reset (Some c) = Inr \<lparr>state = IN_FIELD, field = [c], row = []\<rparr>"
    using c fl by (simp add: parse_process_char_def parse_reset_def is_newline_def plain_def
        start_field_def parse_add_char_def)
  have 2: "parse_line \<lparr>state = IN_FIELD, field = [c], row = []\<rparr> cs
           = Inr \<lparr>state = IN_FIELD, field = c # cs, row = []\<rparr>"
    using parse_line_in_field[of cs "\<lparr>state = IN_FIELD, field = [c], row = []\<rparr>"] assms(2,5) t
    by simp
  have 3: "parse_line parse_reset t = Inr \<lparr>state = IN_FIELD, field = t, row = []\<rparr>"
    using 1 2 c by (simp add: t plain_def)
  have 4: "csv_rows parse_reset [t] = Inr [[t]]"
    by (simp add: 3 parse_process_char_def parse_save_field_def) (simp add: parse_reset_def)
  have 5: "io_lines [] t = [t]" using io_lines_plain[of t "[]"] assms(1,2) by simp
  show ?thesis
    unfolding csv_string_to_list_strip_def 5 4 using assms by (simp add: strip_noop)
qed

lemma tok_char_plain: "tok_char c \<Longrightarrow> plain c \<and> \<not> is_space c"
  by (auto simp: tok_char_def plain_def is_space_def is_digit_def Let_def)

lemma tok_show_int: "list_all tok_char (show_int i)"
  using dec_digits[of "nat i"] dec_digits[of "nat (- i)"]
  by (auto simp: show_int_def tok_char_def list_all_iff)

lemma tok_show_step: "list_all tok_char (show_step i)"
  using dec_digits[of "nat i"] dec_digits[of "nat (- i)"]
  by (auto simp: show_step_def tok_char_def list_all_iff)

lemma csv_tok:
  assumes "t \<noteq> []" "list_all tok_char t" "length t \<le> field_limit"
  shows "csv_string_to_list_strip t = Inr [t]"
proof -
  have "tok_char (hd t)" "tok_char (last t)" using assms(1,2) by (auto simp: list_all_iff)
  then show ?thesis using assms tok_char_plain
    by (intro csv_single_token) (auto simp: list_all_iff)
qed

lemma coerce_all_ints: "coerce_all np TInt (map VInt l) = Inr (map VInt l)"
  by (induction l) (auto simp: coerce_def)

lemma range_token_tok: "list_all tok_char (range_token a b s)"
  using tok_show_int tok_show_step
  by (cases s) (auto simp: range_token_def tok_char_def list_all_iff)

lemma range_token_nonempty: "range_token a b s \<noteq> []"
  by (simp add: range_token_def)

lemma expand_range_token:
  assumes "num_digits a \<le> max_str_digits" "num_digits b \<le> max_str_digits"
    "\<And>k. s = Some k \<Longrightarrow> num_digits k \<le> max_str_digits"
  shows "expand_int_token np (range_token a b s) =
     (case py_range a (b + 1) (case s of None \<Rightarrow> 1 | Some k \<Rightarrow> k) of
        Inl e \<Rightarrow> Inl e | Inr l \<Rightarrow> Inr (map VInt l))"
proof (cases s)
  case None
  then show ?thesis using expand_int_token_range1[OF assms(1,2), of np]
    by (simp add: range_token_def)
next
  case (Some k)
  then show ?thesis using expand_int_token_range[OF assms(1,2) assms(3)[OF Some], of np]
    by (simp add: range_token_def)
qed

lemma range_token_length:
  assumes "num_digits a \<le> max_str_digits" "num_digits b \<le> max_str_digits"
    "\<And>k. s = Some k \<Longrightarrow> num_digits k \<le> max_str_digits"
  shows "length (range_token a b s) \<le> field_limit"
proof -
  have "length (range_token a b s) \<le> 3 * max_str_digits + 6"
    using assms length_show_int[of a] length_show_int[of b]
    by (cases s) (auto simp: range_token_def length_show_step)
  then show ?thesis by (simp add: max_str_digits_def field_limit_def)
qed

lemma py_range_pos_set:
  assumes "0 < k" "py_range a (b + 1) k = Inr l"
  shows "set l = {v. a \<le> v \<and> v \<le> b \<and> k dvd (v - a)}"
proof -
  let ?n = "range_len a (b + 1) k"
  have l: "l = map (\<lambda>i. a + int i * k) [0 ..< ?n]"
    using assms by (auto simp: py_range_def split: if_splits)
  have n: "int ?n = (if a \<le> b then (b - a) div k + 1 else 0)"
    using assms(1) by (auto simp: range_len_def pos_imp_zdiv_nonneg_iff)
  show ?thesis
  proof (intro set_eqI iffI)
    fix v assume "v \<in> set l"
    then obtain i where i: "i < ?n" "v = a + int i * k" by (auto simp: l)
    then have ab: "a \<le> b" using n by (auto split: if_splits)
    have "int i \<le> (b - a) div k" using i(1) n ab by auto
    then have "int i * k \<le> (b - a) div k * k" using assms(1) by (simp add: mult_right_mono)
    also have "\<dots> \<le> b - a"
    proof -
      have "(b - a) div k * k + (b - a) mod k = b - a" by simp
      moreover have "0 \<le> (b - a) mod k" using assms(1) by simp
      ultimately show ?thesis by linarith
    qed
    finally show "v \<in> {v. a \<le> v \<and> v \<le> b \<and> k dvd (v - a)}" using i assms(1) by auto
  next
    fix v assume "v \<in> {v. a \<le> v \<and> v \<le> b \<and> k dvd (v - a)}"
    then have v: "a \<le> v" "v \<le> b" "k dvd (v - a)" by auto
    define i where "i = nat ((v - a) div k)"
    have ik: "int i * k = v - a" using v assms(1) by (simp add: i_def pos_imp_zdiv_nonneg_iff)
    have "(v - a) div k \<le> (b - a) div k" using v assms(1) by (simp add: zdiv_mono1)
    moreover have "0 \<le> (v - a) div k" using v assms(1) by (simp add: pos_imp_zdiv_nonneg_iff)
    ultimately have "int i < int ?n" using n v by (simp add: i_def)
    then have "i < ?n" by linarith
    then show "v \<in> set l" using ik by (auto simp: l intro!: image_eqI[of _ _ i])
  qed
qed

text \<open>
  C4 (as amended). Take an integer axis option (not "Nothing", without \<open>prepare\<close> function
  or validator, as every integer option of the table is) read from the text box, and a
  range token written \<^verbatim>\<open>a-b\<close> or \<^verbatim>\<open>a-b(s)\<close>: plain decimal numbers without blanks, \<open>a\<close> and
  \<open>b\<close> with a minus sign when negative, the step \<open>s\<close> always with its sign, \<^verbatim>\<open>+\<close> or \<^verbatim>\<open>-\<close>, and
  no number longer than 4300 digits. Whenever \<^verbatim>\<open>list(range(a, b+1, s))\<close> exists (the step
  is not zero, the length at most \<open>2^63 - 1\<close>), the token is expanded to exactly that list,
  the step being 1 when the parenthesis is absent. For a positive step these are the
  values \<open>a, a+s, ...\<close> from \<open>a\<close> up to \<open>b\<close>, inclusive of \<open>b\<close> when it is reached; without a
  step they are \<open>a, a+1, ..., b\<close>.
\<close>

theorem process_axis_range_token:
  assumes "otype opt = TInt" and "label opt \<noteq> ''Nothing''"
    and "choices opt = None \<or> csv_mode" and "prepare opt = None" and "confirm opt = None"
    and "num_digits a \<le> max_str_digits" and "num_digits b \<le> max_str_digits"
    and "\<forall>k. s = Some k \<longrightarrow> num_digits k \<le> max_str_digits"
    and "py_range a (b + 1) (case s of None \<Rightarrow> 1 | Some k \<Rightarrow> k) = Inr l"
  shows "process_axis np csv_mode opt (range_token a b s) dd = Inr (map VInt l) \<and>
         (\<forall>k. s = Some k \<and> 0 < k \<longrightarrow> set l = {v. a \<le> v \<and> v \<le> b \<and> k dvd (v - a)}) \<and>
         (s = None \<longrightarrow> l = [a ..  b])"
proof -
  have d: "num_digits k \<le> max_str_digits" if "s = Some k" for k
    using assms(8) that by blast
  have len: "length (range_token a b s) \<le> field_limit"
    by (rule range_token_length[OF assms(6,7) d])
  have csv: "csv_string_to_list_strip (range_token a b s) = Inr [range_token a b s]"
    by (rule csv_tok[OF range_token_nonempty range_token_tok len])
  have ns: "py_strip (range_token a b s) \<noteq> []"
    using csv_tok[OF range_token_nonempty range_token_tok len] range_token_nonempty[of a b s]
      strip_noop[of "range_token a b s"] range_token_tok[of a b s] tok_char_plain
    by (metis hd_in_set last_in_set list_all_iff)
  have ex: "expand_int_token np (range_token a b s) = Inr (map VInt l)"
    using expand_range_token[OF assms(6,7) d, of s np] assms(9) by simp
  have 1: "process_axis np csv_mode opt (range_token a b s) dd = Inr (map VInt l)"
    using assms(1-5) ns
    by (auto simp: process_axis_def csv ex coerce_all_ints)
  have 2: "set l = {v. a \<le> v \<and> v \<le> b \<and> k dvd (v - a)}" if "s = Some k" "0 < k" for k
    using py_range_pos_set[of k a b l] assms(9) that by simp
  have 3: "l = [a .. b]" if "s = None"
  proof -
    have l: "l = map (\<lambda>i. a + int i) [0 ..< range_len a (b + 1) 1]"
      using assms(9) that by (auto simp: py_range_def split: if_splits)
    have n: "range_len a (b + 1) 1 = nat (b - a + 1)" by (auto simp: range_len_def)
    show ?thesis unfolding l n
      by (rule nth_equalityI) (auto simp: nth_upto)
  qed
  show ?thesis using 1 2 3 by blast
qed

theorem process_axis_range_token_witness:
  "process_axis no_float True (opt_steps id) ''1-5(+2)'' [] = Inr [VInt 1, VInt 3, VInt 5]
   \<and> set [1, 3, 5 :: int] = {v. 1 \<le> v \<and> v \<le> 5 \<and> 2 dvd (v - 1)}"
proof -
  have t: "range_token 1 5 (Some 2) = ''1-5(+2)''"
    by code_simp
  have r: "py_range 1 (5 + 1) (case Some 2 of None \<Rightarrow> 1 | Some k \<Rightarrow> k) = Inr [1, 3, 5]"
    by (simp add: py_range_def range_len_def ssize_max_def upt_rec)
  have d: "num_digits 1 \<le> max_str_digits" "num_digits 5 \<le> max_str_digits"
    "\<forall>k. Some (2::int) = Some k \<longrightarrow> num_digits k \<le> max_str_digits"
    by (simp_all add: num_digits_def dec.simps max_str_digits_def)
  from process_axis_range_token [where opt = "opt_steps id" and csv_mode = True
      and np = no_float and dd = "[]", OF _ _ _ _ _ d r]
  show ?thesis unfolding t by (simp add: opt_steps_def)
qed

text \<open>
  C4 as stated gives the example \<^verbatim>\<open>1-5(2)\<close>. The pattern requires a sign before the step,
  so this token is no range: it is kept as a literal and \<^verbatim>\<open>int\<close> refuses it.
\<close>

theorem unsigned_step_counterexample:
  "process_axis no_float True (opt_steps id) ''1-5(2)'' [] = Inl ValueError"
proof -
  have csv: "csv_string_to_list_strip ''1-5(2)'' = Inr [''1-5(2)'']"
    by (rule csv_tok) (simp_all add: tok_char_def is_digit_def field_limit_def)
  have e: "expand_int_token no_float ''1-5(2)'' = Inr [VStr ''1-5(2)'']"
    by code_simp
  have s: "py_strip ''1-5(2)'' \<noteq> []"
    by code_simp
  have c: "coerce no_float TInt (VStr ''1-5(2)'') = Inl ValueError"
    by code_simp
  show ?thesis
    by (simp add: process_axis_def opt_steps_def csv e s c)
qed

text \<open>
  C8 (as amended). For the axis "Nothing" the parsed list is exactly the one placeholder
  \<open>0\<close> whatever the input. For any other axis option (without a \<open>prepare\<close> function, and
  whose validator, if any, accepts the empty list and the list of the empty tuple) an
  empty specification, empty text and empty selection,
  parses to the empty list; only the permutation type yields one element, the empty
  tuple.
\<close>

theorem process_axis_empty:
  assumes "prepare opt = None"
    and "\<forall>c. confirm opt = Some c \<longrightarrow> c [] = None \<and> c [VTuple []] = None"
  shows "(label opt = ''Nothing'' \<longrightarrow> process_axis np csv_mode opt vals dd = Inr [VInt 0]) \<and>
         (label opt \<noteq> ''Nothing'' \<longrightarrow>
            process_axis np csv_mode opt [] [] =
              (if otype opt = TStrPermutations then Inr [VTuple []] else Inr []))"
proof -
  have csv: "csv_string_to_list_strip [] = Inr []"
    by (simp add: csv_string_to_list_strip_def parse_reset_def)
  have p: "permutations ([] :: string list) = [[]]" by (simp add: permutations_def)
  show ?thesis using assms
    by (cases "otype opt"; cases "confirm opt")
       (auto simp: process_axis_def csv p coerce_def)
qed

theorem process_axis_empty_witness:
  "process_axis no_float False (opt_nothing id) ''1,2,3'' [] = Inr [VInt 0] \<and>
   process_axis no_float False (opt_seed id) [] [] = Inr [] \<and>
   process_axis no_float False (opt_styles id [''a'', ''b'']) [] [] = Inr []"
  using process_axis_empty [where opt = "opt_nothing id" and np = no_float and csv_mode = False
      and vals = "''1,2,3''" and dd = "[]"]
    process_axis_empty [where opt = "opt_seed id" and np = no_float and csv_mode = False]
    process_axis_empty [where opt = "opt_styles id [''a'', ''b'']" and np = no_float
      and csv_mode = False]
  by (simp add: opt_nothing_def opt_seed_def opt_styles_def)

text \<open>
  C8 as stated asks for a one-element list for every axis option. The axis "Seed" with
  an empty text box parses to the empty list, so the sweep has no cell.
\<close>

theorem empty_spec_counterexample:
  "process_axis no_float False (opt_seed id) [] [] = Inr []"
  by code_simp

subsection \<open>Order of the sweep\<close>

lemma for_each_append:
  "for_each body (as @ bs) s w =
     (case for_each body as s w of (Inl e, w') \<Rightarrow> (Inl e, w') | (Inr s', w') \<Rightarrow> for_each body bs s' w')"
  by (induction as arbitrary: s w) (auto split: prod.splits sum.splits)

lemma for_each_map: "for_each body (map h l) s w = for_each (\<lambda>a. body (h a)) l s w"
  by (induction l arbitrary: s w) (auto split: prod.splits sum.splits)

lemma for_each_product:
  "for_each (\<lambda>a. for_each (g a) bs) as s w = for_each (\<lambda>(a, b). g a b) (List.product as bs) s w"
proof (induction as arbitrary: s w)
  case Nil
  then show ?case by simp
next
  case (Cons a as)
  show ?case
    by (simp add: for_each_append for_each_map Cons.IH split: prod.splits sum.splits)
qed

lemma for_each_cong:
  "(\<And>a s w. a \<in> set l \<Longrightarrow> f a s w = g a s w) \<Longrightarrow> for_each f l s w = for_each g l s w"
  by (induction l arbitrary: s w) (auto split: prod.splits sum.splits)

lemma for_each_product3:
  "for_each (\<lambda>a. for_each (\<lambda>b. for_each (g a b) cs) bs) as s w
   = for_each (\<lambda>(a, b, c). g a b c) (List.product as (List.product bs cs)) s w"
proof -
  have "for_each (\<lambda>a. for_each (\<lambda>b. for_each (g a b) cs) bs) as s w
      = for_each (\<lambda>a. for_each (\<lambda>(b, c). g a b c) (List.product bs cs)) as s w"
    by (rule for_each_cong) (simp add: for_each_product)
  also have "\<dots> = for_each (\<lambda>(a, bc). (\<lambda>(b, c). g a b c) bc) (List.product as (List.product bs cs)) s w"
    by (rule for_each_product)
  finally show ?thesis by (simp add: split_def)
qed

lemma sweep_cells_flat:
  "sweep_cells pc f s xs ys zs st w =
     for_each (\<lambda>(a, b, c). pc a b c)
       (cells_order f s (enumerate 0 xs) (enumerate 0 ys) (enumerate 0 zs)) st w"
  unfolding sweep_cells_def cells_order_def Let_def
  by (cases f; cases "s = AX"; cases "s = AY")
     (simp_all add: for_each_product3 for_each_map split_def)












lemma sized_template: "sized n (result_template processed n)"
  by (simp add: sized_def result_template_def)







lemma put_sized_first:
  "i \<noteq> 0 \<Longrightarrow> images (put lib dil xl yl zl c i p pr) ! 0 = images pr ! 0"
  by (auto simp: put_def split: list.splits)






subsection \<open>Lengths of the result lists\<close>

lemma for_each_inv:
  assumes "\<And>a s w s' w'. a \<in> set l \<Longrightarrow> I s \<Longrightarrow> body a s w = (Inr s', w') \<Longrightarrow> I s'"
    and "I s" and "for_each body l s w = (Inr s', w')"
  shows "I s'"
  using assms
proof (induction l arbitrary: s w)
  case Nil
  then show ?case by simp
next
  case (Cons a l)
  obtain r w1 where b: "body a s w = (r, w1)" by (cases "body a s w") auto
  show ?case
  proof (cases r)
    case (Inl e)
    then show ?thesis using Cons.prems(3) b by simp
  next
    case (Inr s1)
    have 1: "I s1" using Cons.prems(1)[of a s w s1 w1] Cons.prems(2) b Inr by simp
    have 2: "for_each body l s1 w1 = (Inr s', w')" using Cons.prems(3) b Inr by simp
    have step: "I t'" if "b \<in> set l" "I t" "body b t v = (Inr t', v')" for b t v t' v'
      by (rule Cons.prems(1)[of b t v t' v']) (use that in simp_all)
    show ?thesis
      by (rule Cons.IH[OF step 1 2])
  qed
qed

lemma store_cell_sized:
  assumes "store_cell lib dil xl yl zl ix iy iz idx processed pr = Inr pr'" "sized n pr"
  shows "sized n pr'"
proof (cases "images processed")
  case Nil
  then show ?thesis using assms
    by (auto simp: store_cell_def sized_def list_set_def Let_def simp del: list_update.simps
        split: list.splits if_splits)
next
  case (Cons im ims)
  then show ?thesis using assms
    by (auto simp: store_cell_def sized_def list_set_def simp del: list_update.simps
        split: list.splits if_splits sum.splits)
qed

lemma process_cell_sized:
  assumes "process_cell lib dil cellf nx ny n xl yl zl a b c po w = (Inr po', w')"
    and "case po of None \<Rightarrow> True | Some q \<Rightarrow> sized n q"
  shows "case po' of None \<Rightarrow> False | Some q \<Rightarrow> sized n q"
proof -
  obtain res w1 where c: "cellf (snd a) (snd b) (snd c) (fst a) (fst b) (fst c) w = (res, w1)"
    by (cases "cellf (snd a) (snd b) (snd c) (fst a) (fst b) (fst c) w") auto
  show ?thesis
  proof (cases res)
    case (Inl e)
    then show ?thesis using assms(1) c by (simp add: process_cell_def)
  next
    case (Inr processed)
    let ?pr = "case po of None \<Rightarrow> result_template processed n | Some r \<Rightarrow> r"
    have sz: "sized n ?pr" using assms(2) by (cases po) (auto simp: sized_template)
    obtain pr' where st: "store_cell lib dil xl yl zl (fst a) (fst b) (fst c)
        (index nx ny (fst a) (fst b) (fst c)) processed ?pr = Inr pr'" and po': "po' = Some pr'"
      using assms(1) c Inr by (auto simp: process_cell_def Let_def split: sum.splits)
    show ?thesis using store_cell_sized[OF st sz] po' by simp
  qed
qed

lemma sweep_cells_sized:
  assumes "sweep_cells (process_cell lib dil cellf nx ny n xl yl zl) f s xs ys zs None w
           = (Inr po, w')"
  shows "case po of None \<Rightarrow> True | Some q \<Rightarrow> sized n q"
proof -
  let ?I = "\<lambda>po :: 'a grid_processed option. case po of None \<Rightarrow> True | Some q \<Rightarrow> sized n q"
  show ?thesis
  proof (rule for_each_inv[where I = ?I, OF _ _ assms[unfolded sweep_cells_flat]])
    show "?I None" by simp
  next
    fix a :: cellpos and st w st' w'
    assume "?I st" "(case a of (a, b, c) \<Rightarrow> process_cell lib dil cellf nx ny n xl yl zl a b c) st w
               = (Inr st', w')"
    then show "?I st'"
      using process_cell_sized[of lib dil cellf nx ny n xl yl zl "fst a" "fst (snd a)"
          "snd (snd a)" st w st' w']
      by (cases st') (auto simp: split_def)
  qed
qed

lemma sub_grid_step_length:
  assumes "sub_grid_step lib dl nx ny xl yl m i pr = Inr pr'"
  shows "length (images pr') = Suc (length (images pr)) \<and>
         length (all_prompts pr') = Suc (length (all_prompts pr)) \<and>
         length (all_seeds pr') = Suc (length (all_seeds pr)) \<and>
         length (infotexts pr') = Suc (length (infotexts pr))"
  using assms
  by (auto simp: sub_grid_step_def Let_def list_insert_def
      split: sum.splits if_splits prod.splits)

lemma sub_grids_length:
  assumes "sub_grids (sub_grid_step lib dl nx ny xl yl m) l pr = Inr pr'"
  shows "length (images pr') = length (images pr) + length l \<and>
         length (all_prompts pr') = length (all_prompts pr) + length l \<and>
         length (all_seeds pr') = length (all_seeds pr) + length l \<and>
         length (infotexts pr') = length (infotexts pr) + length l"
  using assms
proof (induction l arbitrary: pr)
  case Nil
  then show ?case by simp
next
  case (Cons i l)
  then obtain pr1 where 1: "sub_grid_step lib dl nx ny xl yl m i pr = Inr pr1"
    and 2: "sub_grids (sub_grid_step lib dl nx ny xl yl m) l pr1 = Inr pr'"
    by (auto split: sum.splits)
  show ?case using sub_grid_step_length[OF 1] Cons.IH[OF 2] by simp
qed

lemma top_grid_length:
  assumes "top_grid lib dl zc zl pr = Inr pr'"
  shows "length (images pr') = Suc (length (images pr)) \<and>
         length (infotexts pr') = Suc (length (infotexts pr)) \<and>
         length (all_prompts pr') = length (all_prompts pr) \<and>
         length (all_seeds pr') = length (all_seeds pr)"
  using assms
  by (auto simp: top_grid_def Let_def split: sum.splits prod.splits list.splits)

text \<open>
  C1. The claim is that the four lists keep equal length through the insertions of the
  grids. Whenever \<^verbatim>\<open>draw_xyz_grid\<close> returns images, for any renderer and any order of the
  loops, the lists of images and of infotexts have one entry per cell, one per slice
  grid and one for the top grid, while the lists of prompts and of seeds have one entry
  per cell and one per slice grid only: the insertion of the top grid leaves them one
  entry short.
\<close>

theorem draw_xyz_grid_lengths:
  assumes "draw_xyz_grid lib Processed_p xs ys zs x_labels y_labels z_labels cellf draw_legend
             draw_individual_labels first_axes_processed second_axes_processed margin_size w
           = (Inr out, w')"
    and "images out \<noteq> []"
  shows "length (images out) = length xs * length ys * length zs + length zs + 1 \<and>
         length (infotexts out) = length xs * length ys * length zs + length zs + 1 \<and>
         length (all_prompts out) = length xs * length ys * length zs + length zs \<and>
         length (all_seeds out) = length xs * length ys * length zs + length zs"
proof -
  let ?n = "length xs * length ys * length zs"
  let ?sw = "sweep_cells (process_cell lib draw_individual_labels cellf (length xs) (length ys) ?n
                x_labels y_labels z_labels) first_axes_processed second_axes_processed
                xs ys zs None w"
  obtain r w1 where sw: "?sw = (r, w1)" by (cases ?sw) auto
  from assms sw obtain pr pr1 where r: "r = Inr (Some pr)"
    and g: "sub_grids (sub_grid_step lib draw_legend (length xs) (length ys) x_labels y_labels
               margin_size) [0 ..< length zs] pr = Inr pr1"
    and t: "top_grid lib draw_legend (length zs) z_labels pr1 = Inr out"
    by (auto simp: draw_xyz_grid_def Let_def split: sum.splits option.splits if_splits)
  have "sized ?n pr" using sweep_cells_sized[OF sw[unfolded r]] by simp
  then show ?thesis using sub_grids_length[OF g] top_grid_length[OF t] by (simp add: sized_def)
qed


theorem draw_xyz_grid_lengths_witness:
  "map_sum id (\<lambda>out. (length (images out), length (infotexts out),
                       length (all_prompts out), length (all_seeds out)))
     (fst (draw_xyz_grid sym_lib (\<lambda>w. no_grid) [VInt 1] [VInt 2] [VInt 3]
             [VStr ''1''] [VStr ''2''] [VStr ''3''] (pure_cell (\<lambda>x y z ix iy iz. one_image 7))
             True False AZ AY 0 ()))
   = Inr (3, 3, 2, 2)"
proof -
  obtain out where d: "draw_xyz_grid sym_lib (\<lambda>w. no_grid) [VInt 1] [VInt 2] [VInt 3]
             [VStr ''1''] [VStr ''2''] [VStr ''3''] (pure_cell (\<lambda>x y z ix iy iz. one_image 7))
             True False AZ AY 0 () = (Inr out, ())" and i: "images out \<noteq> []"
    by (simp add: draw_xyz_grid_def sweep_cells_def process_cell_def pure_cell_def
        store_cell_def result_template_def list_set_def list_get_def index_def enumerate_one
        sub_grid_step_def slice_def max_size_def top_grid_def list_insert_def sym_lib_def
        one_image_def)
  show ?thesis using draw_xyz_grid_lengths[OF d i] by (simp add: d)
qed

subsection \<open>The sweep without grid\<close>

lemma for_break_inv:
  assumes "\<And>a s w s' w'. a \<in> set l \<Longrightarrow> I s \<Longrightarrow> body a s w = (Inr s', w') \<Longrightarrow> I s'"
    and "I s" and "for_break flag body l s w = (Inr s', w')"
  shows "I s'"
  using assms
proof (induction l arbitrary: s w)
  case Nil
  then show ?case by simp
next
  case (Cons a l)
  show ?case
  proof (cases "flag w")
    case True
    then show ?thesis using Cons.prems(2,3) by simp
  next
    case False
    obtain r w1 where b: "body a s w = (r, w1)" by (cases "body a s w") auto
    show ?thesis
    proof (cases r)
      case (Inl e)
      then show ?thesis using Cons.prems(3) b False by simp
    next
      case (Inr s1)
      have 1: "I s1" using Cons.prems(1)[of a s w s1 w1] Cons.prems(2) b Inr by simp
      have 2: "for_break flag body l s1 w1 = (Inr s', w')" using Cons.prems(3) b Inr False by simp
      have step: "I t'" if "b \<in> set l" "I t" "body b t v = (Inr t', v')" for b t v t' v'
        by (rule Cons.prems(1)[of b t v t' v']) (use that in simp_all)
      show ?thesis
        by (rule Cons.IH[OF step 1 2])
    qed
  qed
qed

lemma skip_grid_cell_aligned:
  assumes "\<And>x y z ix iy iz w proc w'.
             cellf x y z ix iy iz w = (Inr proc, w') \<Longrightarrow> images proc \<noteq> [] \<Longrightarrow> aligned proc"
    and "skip_grid_cell cellf a b c out w = (Inr out', w')" and "aligned out"
  shows "aligned out'"
proof -
  obtain r w1 where e: "cellf (snd a) (snd b) (snd c) (fst a) (fst b) (fst c) w = (r, w1)"
    by (cases "cellf (snd a) (snd b) (snd c) (fst a) (fst b) (fst c) w") auto
  show ?thesis
  proof (cases r)
    case (Inl e')
    then show ?thesis using assms(2) e by (simp add: skip_grid_cell_def)
  next
    case (Inr proc)
    show ?thesis
    proof (cases "images proc = []")
      case True
      then show ?thesis using assms(2,3) e Inr by (simp add: skip_grid_cell_def)
    next
      case False
      have "aligned proc" using assms(1)[of "snd a" "snd b" "snd c" "fst a" "fst b" "fst c" w proc w1]
          e Inr False by simp
      then show ?thesis using assms(2,3) e Inr False
        by (auto simp: skip_grid_cell_def aligned_def)
    qed
  qed
qed

lemma skip_grid_cells_aligned:
  assumes "\<And>x y z ix iy iz w proc w'.
             cellf x y z ix iy iz w = (Inr proc, w') \<Longrightarrow> images proc \<noteq> [] \<Longrightarrow> aligned proc"
    and "skip_grid_cells flag cellf xs ys zs out w = (Inr out', w')" and "aligned out"
  shows "aligned out'"
proof -
  have x: "aligned t'" if "aligned t"
    "for_break flag (\<lambda>ix. skip_grid_cell cellf ix iy iz) (enumerate 0 xs) t v = (Inr t', v')"
    for iy iz t v t' v'
    by (rule for_break_inv[where I = aligned, OF _ that])
       (rule skip_grid_cell_aligned[OF assms(1)])
  have y: "aligned t'" if "aligned t"
    "for_each (\<lambda>iy. for_break flag (\<lambda>ix. skip_grid_cell cellf ix iy iz) (enumerate 0 xs))
       (enumerate 0 ys) t v = (Inr t', v')"
    for iz t v t' v'
    by (rule for_each_inv[where I = aligned, OF _ that]) (rule x)
  show ?thesis
    by (rule for_each_inv[where I = aligned, OF _ assms(3) assms(2)[unfolded skip_grid_cells_def]])
       (rule y)
qed

lemma for_each_unchanged:
  "(\<And>a. a \<in> set l \<Longrightarrow> body a s w = (Inr s, w)) \<Longrightarrow> for_each body l s w = (Inr s, w)"
  by (induction l) auto

lemma for_break_stopped: "flag w \<Longrightarrow> for_break flag body l s w = (Inr s, w)"
  by (cases l) auto

lemma skip_grid_cells_stopped:
  "flag w \<Longrightarrow> skip_grid_cells flag cellf xs ys zs out w = (Inr out, w)"
  unfolding skip_grid_cells_def
  by (intro for_each_unchanged for_break_stopped)

text \<open>
  C10. In the sweep without grid a cell without images adds nothing to the output.
  \<^verbatim>\<open>cell\<close> returns a result without images when one of the two flags is set, and when the
  renderer raises; the body of the loop then returns the output as it was, with no
  placeholder appended; with \<^verbatim>\<open>state.interrupted\<close> set the loops leave the output as it
  is. When every result with images brings as many infotexts, prompts and seeds as
  images, the four lists of the output have equal length. In the example that follows,
  the second of three cells fails and the output has two entries.
\<close>

theorem skip_grid_empty_cells:
  fixes env :: "('img, 'r) renderer" and cellf :: "('img2, 'w) cell_fun"
  shows
    "(interrupted w \<or> stopping_generation w \<longrightarrow>
        cell env c x y z ix iy iz w = (Inr (empty_result env c w), w)) \<and>
     images (empty_result env c w) = [] \<and>
     (process_images env pc w = (Inl e, w1) \<longrightarrow>
        render env c x y z pc w = (empty_result env c w1, w1)) \<and>
     (cellf x' y' z' ix' iy' iz' v = (Inr proc, v') \<and> images proc = [] \<longrightarrow>
        skip_grid_cell cellf (ix', x') (iy', y') (iz', z') out v = (Inr out, v')) \<and>
     (flag v \<longrightarrow> skip_grid_cells flag cellf xs ys zs out v = (Inr out, v)) \<and>
     ((\<forall>x y z ix iy iz w proc w'.
          cellf x y z ix iy iz w = (Inr proc, w') \<and> images proc \<noteq> [] \<longrightarrow> aligned proc) \<and>
      skip_grid_run flag cellf gs Processed_p xs ys zs v = (Inr fin, v'') \<longrightarrow> aligned fin)"
proof -
  have g: "skip_grid_cells flag cellf xs ys zs out v = (Inr out, v)" if "flag v"
    using that by (rule skip_grid_cells_stopped[where flag = flag and w = v])
  have a: "cell env c x y z ix iy iz w = (Inr (empty_result env c w), w)"
    if "interrupted w \<or> stopping_generation w"
    using that by (simp add: cell_def)
  have b: "images (empty_result env c w) = []" by (simp add: empty_result_def)
  have r: "render env c x y z pc w = (empty_result env c w1, w1)"
    if "process_images env pc w = (Inl e, w1)"
    using that by (simp add: render_def)
  have s: "skip_grid_cell cellf (ix', x') (iy', y') (iz', z') out v = (Inr out, v')"
    if "cellf x' y' z' ix' iy' iz' v = (Inr proc, v')" "images proc = []"
    using that by (simp add: skip_grid_cell_def)
  have f: "aligned fin"
    if h: "\<forall>x y z ix iy iz w proc w'.
          cellf x y z ix iy iz w = (Inr proc, w') \<and> images proc \<noteq> [] \<longrightarrow> aligned proc"
      and run: "skip_grid_run flag cellf gs Processed_p xs ys zs v = (Inr fin, v'')"
  proof -
    let ?p0 = "Processed_p\<lparr>images := [], infotexts := [], all_prompts := [], all_seeds := []\<rparr>"
    have sw: "skip_grid_cells flag cellf xs ys zs ?p0 v = (Inr fin, v'')"
      using run by (auto simp: skip_grid_run_def split: prod.splits sum.splits if_splits)
    have p0: "aligned ?p0" by (simp add: aligned_def)
    show ?thesis
      by (rule skip_grid_cells_aligned[OF _ sw p0]) (use h in blast)
  qed
  show ?thesis using a b r s g f by blast
qed

theorem skip_grid_empty_cells_witness:
  "skip_grid_run (\<lambda>w. False)
     (pure_cell (\<lambda>x y z ix iy iz. if ix = 1 then no_image else one_image 7)) False no_image
     [VInt 1, VInt 2, VInt 3] [VInt 0] [VInt 0] ()
   = (Inr (no_image\<lparr>images := images (one_image 7) @ images (one_image 7),
                    infotexts := infotexts (one_image 7) @ infotexts (one_image 7),
                    all_prompts := all_prompts (one_image 7) @ all_prompts (one_image 7),
                    all_seeds := all_seeds (one_image 7) @ all_seeds (one_image 7)\<rparr>), ()) \<and>
   aligned (no_image\<lparr>images := images (one_image 7) @ images (one_image 7),
                    infotexts := infotexts (one_image 7) @ infotexts (one_image 7),
                    all_prompts := all_prompts (one_image 7) @ all_prompts (one_image 7),
                    all_seeds := all_seeds (one_image 7) @ all_seeds (one_image 7)\<rparr>)"
proof -
  let ?cf = "pure_cell (\<lambda>x y z ix iy iz. if ix = Suc 0 then no_image else one_image 7)
             :: (image, unit) cell_fun"
  let ?fin = "no_image\<lparr>images := images (one_image 7) @ images (one_image 7),
                    infotexts := infotexts (one_image 7) @ infotexts (one_image 7),
                    all_prompts := all_prompts (one_image 7) @ all_prompts (one_image 7),
                    all_seeds := all_seeds (one_image 7) @ all_seeds (one_image 7)\<rparr>"
  have e3: "enumerate 0 [a, b, c] = [(0, a), (1, b), (2, c)]" for a b c :: pyval
    by (simp add: enumerate_eq_zip upt_rec)
  have run: "skip_grid_run (\<lambda>w. False) ?cf False no_image
     [VInt 1, VInt 2, VInt 3] [VInt 0] [VInt 0] () = (Inr ?fin, ())"
    by (simp add: skip_grid_run_def skip_grid_cells_def skip_grid_cell_def pure_cell_def
        enumerate_one e3 one_image_def no_image_def)
  have h: "\<forall>x y z ix iy iz w proc w'.
          ?cf x y z ix iy iz w = (Inr proc, w') \<and> images proc \<noteq> [] \<longrightarrow> aligned proc"
    by (auto simp: pure_cell_def aligned_def one_image_def no_image_def split: if_splits)
  note t = skip_grid_empty_cells[where cellf = ?cf and flag = "\<lambda>w. False" and gs = False
        and Processed_p = no_image and xs = "[VInt 1, VInt 2, VInt 3]" and ys = "[VInt 0]"
        and zs = "[VInt 0]" and v = "()" and fin = ?fin and v'' = "()",
        THEN conjunct2, THEN conjunct2, THEN conjunct2, THEN conjunct2, THEN conjunct2]
  have "aligned ?fin"
    by (rule mp[OF t]) (intro conjI h run)
  then show ?thesis using run by simp
qed

end
